theory Spec2Isabelle
  imports Complex_Main
begin

section \<open>Strings and numbers of the host language\<close>

text \<open>
  A JavaScript string is modelled as a HOL \<open>string\<close> holding its UTF-8 bytes: concatenation,
  equality, emptiness (the truthiness test of a string) and search for an ASCII pattern agree
  with the source on every well-formed text. Arabic literals of the source are written as
  byte lists.
\<close>

text \<open>Truthiness of a string: \<open>s || d\<close> yields \<open>d\<close> exactly when \<open>s\<close> is empty.\<close>

definition or_else :: "string \<Rightarrow> string \<Rightarrow> string" where
  "or_else s d = (if s = [] then d else s)"

text \<open>\<open>Array.prototype.slice(-n)\<close>: the last \<open>n\<close> elements, the whole array when it is shorter.\<close>

definition slice_last :: "nat \<Rightarrow> 'a list \<Rightarrow> 'a list" where
  "slice_last n xs = drop (length xs - n) xs"

text \<open>Decimal rendering of a non-negative integer, as a template literal prints it.\<close>

definition digit_char :: "nat \<Rightarrow> char" where
  "digit_char d = ''0123456789'' ! d"

fun show_nat :: "nat \<Rightarrow> string" where
  "show_nat n = (if n < 10 then [digit_char n] else show_nat (n div 10) @ [digit_char (n mod 10)])"

declare show_nat.simps [simp del]

section \<open>The conversation log sink (services/mockApi)\<close>

datatype ConversationIntent =
  Greeting | Search | Price_inquiry | Booking | Info | Complaint | Other

datatype ConversationStatus = Complete | Interrupted | Errored | Session_end

record ConversationLog =
  log_id :: string
  sessionId :: string
  timestamp :: string
  userMessage :: string
  botResponse :: string
  intent :: ConversationIntent
  propertyId :: "string option"
  propertyType :: "string option"
  location :: "string option"
  toolsUsed :: "string list"
  status :: ConversationStatus
  duration :: "int option"

text \<open>
  What \<open>saveInquiry\<close> reads from its surroundings at the moment of the call: the clock
  (\<open>Date.now()\<close>, in milliseconds), the locale rendering of the date, the random suffix drawn
  for a new session id, and the three classifiers of the user text (\<open>detectIntent\<close>,
  \<open>extractPropertyType\<close>, \<open>extractLocation\<close>: regular-expression tests whose verdict is
  stored in the record and never influences which records are kept).
\<close>

record sink_env =
  now :: nat
  locale_now :: string
  random_suffix :: string
  detectIntent :: "string \<Rightarrow> ConversationIntent"
  extractPropertyType :: "string \<Rightarrow> string option"
  extractLocation :: "string \<Rightarrow> string option"

text \<open>
  The module state of the sink: the item \<open>manasat_inquiries\<close> of the local storage
  (\<open>None\<close> while the key is absent) and the module variable \<open>currentSessionId\<close>.
\<close>

record sink =
  inquiries :: "ConversationLog list option"
  currentSessionId :: "string option"

text \<open>\<open>JSON.parse(localStorage.getItem('manasat_inquiries') || '[]')\<close>\<close>

definition stored_inquiries :: "'a sink_scheme \<Rightarrow> ConversationLog list" where
  "stored_inquiries s = (case inquiries s of None \<Rightarrow> [] | Some xs \<Rightarrow> xs)"

definition getSessionId :: "sink_env \<Rightarrow> 'a sink_scheme \<Rightarrow> string \<times> 'a sink_scheme" where
  "getSessionId e s =
     (case currentSessionId s of
        Some sid \<Rightarrow> (sid, s)
      | None \<Rightarrow>
          (let sid = ''session_'' @ show_nat (now e) @ ''_'' @ random_suffix e
           in (sid, s\<lparr>currentSessionId := Some sid\<rparr>)))"

definition resetSessionId :: "'a sink_scheme \<Rightarrow> 'a sink_scheme" where
  "resetSessionId s = s\<lparr>currentSessionId := None\<rparr>"

record inquiry_options =
  opt_propertyId :: "string option"
  opt_toolsUsed :: "string list option"
  opt_status :: "ConversationStatus option"
  opt_startTime :: "nat option"

text \<open>
  The record built by \<open>saveInquiry\<close>. A start time of \<open>0\<close> is falsy, like an absent one, and
  leaves the duration undefined.
\<close>

definition make_log ::
  "sink_env \<Rightarrow> string \<Rightarrow> string \<Rightarrow> string \<Rightarrow> inquiry_options option \<Rightarrow> ConversationLog" where
  "make_log e sid userMsg botMsg options =
     \<lparr> log_id = show_nat (now e),
       sessionId = sid,
       timestamp = locale_now e,
       userMessage = userMsg,
       botResponse = botMsg,
       intent = detectIntent e userMsg,
       propertyId = (case options of None \<Rightarrow> None | Some opt \<Rightarrow> opt_propertyId opt),
       propertyType = extractPropertyType e userMsg,
       location = extractLocation e userMsg,
       toolsUsed =
         (case options of None \<Rightarrow> []
          | Some opt \<Rightarrow> (case opt_toolsUsed opt of None \<Rightarrow> [] | Some ts \<Rightarrow> ts)),
       status =
         (case options of None \<Rightarrow> Complete
          | Some opt \<Rightarrow> (case opt_status opt of None \<Rightarrow> Complete | Some st \<Rightarrow> st)),
       duration =
         (case options of None \<Rightarrow> None
          | Some opt \<Rightarrow>
              (case opt_startTime opt of
                 None \<Rightarrow> None
               | Some t \<Rightarrow> if t = 0 then None else Some (int (now e) - int t))) \<rparr>"

definition saveInquiry ::
  "sink_env \<Rightarrow> string \<Rightarrow> string \<Rightarrow> inquiry_options option \<Rightarrow> 'a sink_scheme
     \<Rightarrow> ConversationLog \<times> 'a sink_scheme" where
  "saveInquiry e userMsg botMsg options s =
     (let old = stored_inquiries s;
          (sid, s1) = getSessionId e s;
          log = make_log e sid userMsg botMsg options
      in (log, s1\<lparr>inquiries := Some (slice_last 200 (old @ [log]))\<rparr>))"

section \<open>The retry executor (App, \<open>withRetry\<close>)\<close>

text \<open>
  An error object: its \<open>name\<close> and its \<open>message\<close>. \<open>new Error(msg)\<close> has the name \<open>Error\<close>.
\<close>

record js_error =
  err_name :: string
  message :: string

definition new_Error :: "string \<Rightarrow> js_error" where
  "new_Error msg = \<lparr> err_name = ''Error'', message = msg \<rparr>"

text \<open>
  \<open>toLowerCase\<close>, on a text held as its UTF-8 bytes. The letters \<open>A\<close> to \<open>Z\<close> are lowered. Two
  characters outside ASCII have a lower-case form with an ASCII letter in it: the Kelvin sign
  U+212A (the bytes E2 84 AA) becomes \<open>k\<close>, and the capital I with a dot above U+0130 (the
  bytes C4 B0) becomes \<open>i\<close> followed by the combining dot U+0307 (the bytes CC 87). The
  lower-case form of every other character outside ASCII lies outside ASCII; such a
  character is kept as it is, since the component only searches the lowered text for ASCII
  words, and no byte of a character outside ASCII matches an ASCII letter. \<open>includes\<close> is the
  search for a substring.
\<close>

definition lower_char :: "char \<Rightarrow> char" where
  "lower_char c =
     (case map_of (zip ''ABCDEFGHIJKLMNOPQRSTUVWXYZ'' ''abcdefghijklmnopqrstuvwxyz'') c of
        Some d \<Rightarrow> d
      | None \<Rightarrow> c)"

fun toLowerCase :: "string \<Rightarrow> string" where
  "toLowerCase [] = []"
| "toLowerCase (c # cs) =
     (if c = CHR 0xE2 \<and> take 2 cs = [CHR 0x84, CHR 0xAA] then
        CHR ''k'' # toLowerCase (drop 2 cs)
      else if c = CHR 0xC4 \<and> take 1 cs = [CHR 0xB0] then
        CHR ''i'' # CHR 0xCC # CHR 0x87 # toLowerCase (drop 1 cs)
      else lower_char c # toLowerCase cs)"

fun str_includes :: "string \<Rightarrow> string \<Rightarrow> bool" where
  "str_includes [] pat = (pat = [])"
| "str_includes (c # cs) pat = (take (length pat) (c # cs) = pat \<or> str_includes cs pat)"

text \<open>The test of the \<open>catch\<close> block for errors that are not retried.\<close>

definition non_retryable :: "js_error \<Rightarrow> bool" where
  "non_retryable err =
     (let errMsg = toLowerCase (message err)
      in str_includes errMsg ''api key'' \<or> str_includes errMsg ''quota'' \<or>
         str_includes errMsg ''unauthorized'' \<or> str_includes errMsg ''forbidden'' \<or>
         str_includes errMsg ''invalid'')"

text \<open>
  The abort controllers. Every controller that was created has an entry in \<open>signals\<close>, its
  flag \<open>signal.aborted\<close>; \<open>abortControllerRef\<close> holds the index of the current one or
  \<open>None\<close> for \<open>null\<close>. \<open>signal_aborted\<close> is the test \<open>abortControllerRef.current?.signal.aborted\<close>
  at the start of an attempt. The listener of a wait is added to the signal that the
  reference holds when the wait starts; it fires when that signal, not yet aborted then, is
  aborted during the wait (\<open>listener_fired\<close>, on the controllers before and after the wait).
\<close>

record abort_state =
  signals :: "bool list"
  abortControllerRef :: "nat option"

definition aborted_at :: "abort_state \<Rightarrow> nat \<Rightarrow> bool" where
  "aborted_at a c = (c < length (signals a) \<and> signals a ! c)"

definition signal_aborted :: "abort_state \<Rightarrow> bool" where
  "signal_aborted a = (case abortControllerRef a of None \<Rightarrow> False | Some c \<Rightarrow> aborted_at a c)"

definition listener_fired :: "abort_state \<Rightarrow> abort_state \<Rightarrow> bool" where
  "listener_fired before after =
     (case abortControllerRef before of
        None \<Rightarrow> False
      | Some c \<Rightarrow> \<not> aborted_at before c \<and> aborted_at after c)"

text \<open>
  What the executor meets while it runs: how the \<open>k\<close>-th invocation of the operation
  settles, and what other handlers do to the state of the component while that invocation is
  pending and during the wait that follows it. The state is a parameter, with \<open>ab\<close> reading
  the abort controllers from it.
\<close>

datatype 'a outcome = Resolves 'a | Rejects js_error

record ('s, 'a) attempt_env =
  settle :: "nat \<Rightarrow> 'a outcome"
  while_pending :: "nat \<Rightarrow> 's \<Rightarrow> 's"
  while_waiting :: "nat \<Rightarrow> 's \<Rightarrow> 's"

text \<open>
  What a run does, in order: the invocation of the operation for an attempt, the call of the
  observer \<open>onRetry\<close> with the attempt, and the start of the wait after an attempt with the
  delay handed to \<open>setTimeout\<close>, which is \<open>delays[attempt - 1]\<close> and undefined (\<open>None\<close>) from the
  fourth attempt on.
\<close>

datatype retry_event = Invoke nat | Observe nat | Wait nat "nat option"

definition delays :: "nat list" where
  "delays = [500, 1000, 2000]"

definition delay_of :: "nat \<Rightarrow> nat option" where
  "delay_of attempt =
     (if 1 \<le> attempt \<and> attempt - 1 < length delays then Some (delays ! (attempt - 1))
      else None)"

definition observe :: "(nat \<Rightarrow> 's \<Rightarrow> 's) option \<Rightarrow> nat \<Rightarrow> 's \<Rightarrow> 's" where
  "observe onRetry attempt s = (case onRetry of None \<Rightarrow> s | Some f \<Rightarrow> f attempt s)"

definition observed :: "(nat \<Rightarrow> 's \<Rightarrow> 's) option \<Rightarrow> nat \<Rightarrow> retry_event list" where
  "observed onRetry attempt = (case onRetry of None \<Rightarrow> [] | Some f \<Rightarrow> [Observe attempt])"

definition cancelled :: js_error where
  "cancelled = new_Error ''Connection cancelled''"

text \<open>
  The loop from the attempt \<open>attempt\<close> on, with the last error so far. It returns what
  \<open>withRetry\<close> returns or throws (\<open>Inr\<close> the value, \<open>Inl\<close> the error), the state, and the events.
  The number of attempts is a natural number.
\<close>

function retry_loop ::
  "('s \<Rightarrow> abort_state) \<Rightarrow> ('s, 'a) attempt_env \<Rightarrow> nat \<Rightarrow> (nat \<Rightarrow> 's \<Rightarrow> 's) option
     \<Rightarrow> nat \<Rightarrow> js_error \<Rightarrow> 's \<Rightarrow> (js_error + 'a) \<times> 's \<times> retry_event list" where
  "retry_loop ab env maxAttempts onRetry attempt lastError s =
     (if attempt \<le> maxAttempts then
        if signal_aborted (ab s) then (Inl cancelled, s, [])
        else
          (let s1 = while_pending env attempt s in
           case settle env attempt of
             Resolves v \<Rightarrow> (Inr v, s1, [Invoke attempt])
           | Rejects err \<Rightarrow>
               if non_retryable err then (Inl err, s1, [Invoke attempt])
               else if attempt < maxAttempts then
                 (let s2 = observe onRetry attempt s1;
                      s3 = while_waiting env attempt s2;
                      evs = Invoke attempt # observed onRetry attempt
                              @ [Wait attempt (delay_of attempt)]
                  in if listener_fired (ab s2) (ab s3) then (Inl cancelled, s3, evs)
                     else
                       (case retry_loop ab env maxAttempts onRetry (Suc attempt) err s3 of
                          (r, s', rest) \<Rightarrow> (r, s', evs @ rest)))
               else
                 (case retry_loop ab env maxAttempts onRetry (Suc attempt) err s1 of
                    (r, s', rest) \<Rightarrow> (r, s', Invoke attempt # rest)))
      else (Inl lastError, s, []))"
  by pat_completeness auto
termination
  by (relation "measure (\<lambda>(ab, env, maxAttempts, onRetry, attempt, lastError, s).
        Suc maxAttempts - attempt)") auto

declare retry_loop.simps [simp del]

record 's retry_options =
  maxAttempts :: "nat option"
  onRetry :: "(nat \<Rightarrow> 's \<Rightarrow> 's) option"

text \<open>\<open>const { maxAttempts = 3, onRetry } = options\<close>\<close>

definition attempt_limit :: "'s retry_options \<Rightarrow> nat" where
  "attempt_limit options = (case maxAttempts options of None \<Rightarrow> 3 | Some n \<Rightarrow> n)"

definition withRetry ::
  "('s \<Rightarrow> abort_state) \<Rightarrow> ('s, 'a) attempt_env \<Rightarrow> 's retry_options \<Rightarrow> 's
     \<Rightarrow> (js_error + 'a) \<times> 's \<times> retry_event list" where
  "withRetry ab env options s =
     retry_loop ab env (attempt_limit options) (onRetry options) 1 (new_Error ''Unknown error'') s"

text \<open>The attempts for which the operation was invoked, in order.\<close>

definition invocations :: "retry_event list \<Rightarrow> nat list" where
  "invocations evs = concat (map (\<lambda>e. case e of Invoke k \<Rightarrow> [k] | _ \<Rightarrow> []) evs)"

section \<open>The texts of the interface\<close>

definition status_idle :: string where
  \<comment> \<open>the idle prompt (ready, press to talk), in Arabic\<close>
  "status_idle =
     [CHR 0xD8, CHR 0xAC, CHR 0xD8, CHR 0xA7, CHR 0xD9, CHR 0x87, CHR 0xD8, CHR 0xB2,
      CHR 0xD8, CHR 0xA9, CHR '' '', CHR 0xD9, CHR 0x84, CHR 0xD8, CHR 0xAE, CHR 0xD8,
      CHR 0xAF, CHR 0xD9, CHR 0x85, CHR 0xD8, CHR 0xAA, CHR 0xD9, CHR 0x83, CHR ''.'',
      CHR ''.'', CHR '' '', CHR 0xD8, CHR 0xA7, CHR 0xD8, CHR 0xB6, CHR 0xD8, CHR 0xBA,
      CHR 0xD8, CHR 0xB7, CHR '' '', CHR 0xD9, CHR 0x84, CHR 0xD9, CHR 0x84, CHR 0xD8,
      CHR 0xAA, CHR 0xD8, CHR 0xAD, CHR 0xD8, CHR 0xAF, CHR 0xD8, CHR 0xAB]"

definition status_connecting :: string where
  \<comment> \<open>connecting\<close>
  "status_connecting =
     [CHR 0xD8, CHR 0xAC, CHR 0xD8, CHR 0xA7, CHR 0xD8, CHR 0xB1, CHR 0xD9, CHR 0x8A,
      CHR '' '', CHR 0xD8, CHR 0xA7, CHR 0xD9, CHR 0x84, CHR 0xD8, CHR 0xA7, CHR 0xD8,
      CHR 0xAA, CHR 0xD8, CHR 0xB5, CHR 0xD8, CHR 0xA7, CHR 0xD9, CHR 0x84, CHR ''.'',
      CHR ''.'', CHR ''.'']"

definition status_microphone :: string where
  \<comment> \<open>asking for the microphone permission\<close>
  "status_microphone =
     [CHR 0xD8, CHR 0xAC, CHR 0xD8, CHR 0xA7, CHR 0xD8, CHR 0xB1, CHR 0xD9, CHR 0x8A,
      CHR '' '', CHR 0xD8, CHR 0xB7, CHR 0xD9, CHR 0x84, CHR 0xD8, CHR 0xA8, CHR '' '',
      CHR 0xD8, CHR 0xB5, CHR 0xD9, CHR 0x84, CHR 0xD8, CHR 0xA7, CHR 0xD8, CHR 0xAD,
      CHR 0xD9, CHR 0x8A, CHR 0xD8, CHR 0xA9, CHR '' '', CHR 0xD8, CHR 0xA7, CHR 0xD9,
      CHR 0x84, CHR 0xD9, CHR 0x85, CHR 0xD9, CHR 0x8A, CHR 0xD9, CHR 0x83, CHR 0xD8,
      CHR 0xB1, CHR 0xD9, CHR 0x88, CHR 0xD9, CHR 0x81, CHR 0xD9, CHR 0x88, CHR 0xD9,
      CHR 0x86, CHR ''.'', CHR ''.'', CHR ''.'']"

definition status_listening :: string where
  \<comment> \<open>listening\<close>
  "status_listening =
     [CHR 0xD8, CHR 0xA3, CHR 0xD9, CHR 0x86, CHR 0xD8, CHR 0xA7, CHR '' '', CHR 0xD8,
      CHR 0xA3, CHR 0xD8, CHR 0xB3, CHR 0xD9, CHR 0x85, CHR 0xD8, CHR 0xB9, CHR 0xD9,
      CHR 0x83, CHR '' '', CHR 0xD8, CHR 0xA7, CHR 0xD9, CHR 0x84, CHR 0xD8, CHR 0xA2,
      CHR 0xD9, CHR 0x86, CHR ''.'', CHR ''.'']"

definition status_reconnecting :: string where
  \<comment> \<open>reconnecting\<close>
  "status_reconnecting =
     [CHR 0xD8, CHR 0xAC, CHR 0xD8, CHR 0xA7, CHR 0xD8, CHR 0xB1, CHR 0xD9, CHR 0x8A,
      CHR '' '', CHR 0xD8, CHR 0xA5, CHR 0xD8, CHR 0xB9, CHR 0xD8, CHR 0xA7, CHR 0xD8,
      CHR 0xAF, CHR 0xD8, CHR 0xA9, CHR '' '', CHR 0xD8, CHR 0xA7, CHR 0xD9, CHR 0x84,
      CHR 0xD8, CHR 0xA7, CHR 0xD8, CHR 0xAA, CHR 0xD8, CHR 0xB5, CHR 0xD8, CHR 0xA7,
      CHR 0xD9, CHR 0x84, CHR ''.'', CHR ''.'', CHR ''.'']"

definition status_failed :: string where
  \<comment> \<open>an error occurred, press to try again\<close>
  "status_failed =
     [CHR 0xD8, CHR 0xAD, CHR 0xD8, CHR 0xAF, CHR 0xD8, CHR 0xAB, CHR '' '', CHR 0xD8,
      CHR 0xAE, CHR 0xD8, CHR 0xB7, CHR 0xD8, CHR 0xA3, CHR '' '', CHR ''-'', CHR '' '',
      CHR 0xD8, CHR 0xA7, CHR 0xD8, CHR 0xB6, CHR 0xD8, CHR 0xBA, CHR 0xD8, CHR 0xB7,
      CHR '' '', CHR 0xD9, CHR 0x84, CHR 0xD9, CHR 0x84, CHR 0xD9, CHR 0x85, CHR 0xD8,
      CHR 0xAD, CHR 0xD8, CHR 0xA7, CHR 0xD9, CHR 0x88, CHR 0xD9, CHR 0x84, CHR 0xD8,
      CHR 0xA9, CHR '' '', CHR 0xD9, CHR 0x85, CHR 0xD8, CHR 0xB1, CHR 0xD8, CHR 0xA9,
      CHR '' '', CHR 0xD8, CHR 0xA3, CHR 0xD8, CHR 0xAE, CHR 0xD8, CHR 0xB1, CHR 0xD9,
      CHR 0x89]"

definition status_retry_prefix :: string where
  \<comment> \<open>reconnecting, before the attempt number\<close>
  "status_retry_prefix =
     [CHR 0xD8, CHR 0xAC, CHR 0xD8, CHR 0xA7, CHR 0xD8, CHR 0xB1, CHR 0xD9, CHR 0x8A,
      CHR '' '', CHR 0xD8, CHR 0xA5, CHR 0xD8, CHR 0xB9, CHR 0xD8, CHR 0xA7, CHR 0xD8,
      CHR 0xAF, CHR 0xD8, CHR 0xA9, CHR '' '', CHR 0xD8, CHR 0xA7, CHR 0xD9, CHR 0x84,
      CHR 0xD8, CHR 0xA7, CHR 0xD8, CHR 0xAA, CHR 0xD8, CHR 0xB5, CHR 0xD8, CHR 0xA7,
      CHR 0xD9, CHR 0x84, CHR '' '', CHR ''('']"

definition status_auth :: string where
  \<comment> \<open>authentication error\<close>
  "status_auth =
     [CHR 0xD8, CHR 0xAE, CHR 0xD8, CHR 0xB7, CHR 0xD8, CHR 0xA3, CHR '' '', CHR 0xD9,
      CHR 0x81, CHR 0xD9, CHR 0x8A, CHR '' '', CHR 0xD8, CHR 0xA7, CHR 0xD9, CHR 0x84,
      CHR 0xD9, CHR 0x85, CHR 0xD8, CHR 0xB5, CHR 0xD8, CHR 0xA7, CHR 0xD8, CHR 0xAF,
      CHR 0xD9, CHR 0x82, CHR 0xD8, CHR 0xA9, CHR '' '', CHR ''-'', CHR '' '', CHR 0xD8,
      CHR 0xAA, CHR 0xD9, CHR 0x88, CHR 0xD8, CHR 0xA7, CHR 0xD8, CHR 0xB5, CHR 0xD9,
      CHR 0x84, CHR '' '', CHR 0xD9, CHR 0x85, CHR 0xD8, CHR 0xB9, CHR '' '', CHR 0xD8,
      CHR 0xA7, CHR 0xD9, CHR 0x84, CHR 0xD8, CHR 0xAF, CHR 0xD8, CHR 0xB9, CHR 0xD9,
      CHR 0x85]"

definition status_quota :: string where
  \<comment> \<open>quota exceeded\<close>
  "status_quota =
     [CHR 0xD8, CHR 0xAA, CHR 0xD9, CHR 0x85, CHR '' '', CHR 0xD8, CHR 0xAA, CHR 0xD8,
      CHR 0xAC, CHR 0xD8, CHR 0xA7, CHR 0xD9, CHR 0x88, CHR 0xD8, CHR 0xB2, CHR '' '',
      CHR 0xD8, CHR 0xA7, CHR 0xD9, CHR 0x84, CHR 0xD8, CHR 0xAD, CHR 0xD8, CHR 0xAF,
      CHR '' '', CHR 0xD8, CHR 0xA7, CHR 0xD9, CHR 0x84, CHR 0xD9, CHR 0x85, CHR 0xD8,
      CHR 0xB3, CHR 0xD9, CHR 0x85, CHR 0xD9, CHR 0x88, CHR 0xD8, CHR 0xAD, CHR '' '',
      CHR ''-'', CHR '' '', CHR 0xD8, CHR 0xAD, CHR 0xD8, CHR 0xA7, CHR 0xD9, CHR 0x88,
      CHR 0xD9, CHR 0x84, CHR '' '', CHR 0xD9, CHR 0x84, CHR 0xD8, CHR 0xA7, CHR 0xD8,
      CHR 0xAD, CHR 0xD9, CHR 0x82, CHR 0xD8, CHR 0xA7, CHR 0xD9, CHR 0x8B]"

definition status_network :: string where
  \<comment> \<open>check the internet connection\<close>
  "status_network =
     [CHR 0xD8, CHR 0xAA, CHR 0xD8, CHR 0xA3, CHR 0xD9, CHR 0x83, CHR 0xD8, CHR 0xAF,
      CHR '' '', CHR 0xD9, CHR 0x85, CHR 0xD9, CHR 0x86, CHR '' '', CHR 0xD8, CHR 0xA7,
      CHR 0xD8, CHR 0xAA, CHR 0xD8, CHR 0xB5, CHR 0xD8, CHR 0xA7, CHR 0xD9, CHR 0x84,
      CHR '' '', CHR 0xD8, CHR 0xA7, CHR 0xD9, CHR 0x84, CHR 0xD8, CHR 0xA5, CHR 0xD9,
      CHR 0x86, CHR 0xD8, CHR 0xAA, CHR 0xD8, CHR 0xB1, CHR 0xD9, CHR 0x86, CHR 0xD8,
      CHR 0xAA]"

definition msg_microphone_denied :: string where
  \<comment> \<open>please allow access to the microphone\<close>
  "msg_microphone_denied =
     [CHR 0xD9, CHR 0x8A, CHR 0xD8, CHR 0xB1, CHR 0xD8, CHR 0xAC, CHR 0xD9, CHR 0x89,
      CHR '' '', CHR 0xD8, CHR 0xA7, CHR 0xD9, CHR 0x84, CHR 0xD8, CHR 0xB3, CHR 0xD9,
      CHR 0x85, CHR 0xD8, CHR 0xA7, CHR 0xD8, CHR 0xAD, CHR '' '', CHR 0xD8, CHR 0xA8,
      CHR 0xD8, CHR 0xA7, CHR 0xD9, CHR 0x84, CHR 0xD9, CHR 0x88, CHR 0xD8, CHR 0xB5,
      CHR 0xD9, CHR 0x88, CHR 0xD9, CHR 0x84, CHR '' '', CHR 0xD9, CHR 0x84, CHR 0xD9,
      CHR 0x84, CHR 0xD9, CHR 0x85, CHR 0xD9, CHR 0x8A, CHR 0xD9, CHR 0x83, CHR 0xD8,
      CHR 0xB1, CHR 0xD9, CHR 0x88, CHR 0xD9, CHR 0x81, CHR 0xD9, CHR 0x88, CHR 0xD9,
      CHR 0x86]"

definition ph_interrupted_user :: string where
  \<comment> \<open>user side of an interrupted turn without user text\<close>
  "ph_interrupted_user =
     [CHR ''['', CHR 0xD9, CHR 0x85, CHR 0xD9, CHR 0x82, CHR 0xD8, CHR 0xA7, CHR 0xD8,
      CHR 0xB7, CHR 0xD8, CHR 0xB9, CHR 0xD8, CHR 0xA9, CHR '']'']"

definition ph_interrupted_bot :: string where
  \<comment> \<open>assistant side of an interrupted turn without assistant text\<close>
  "ph_interrupted_bot =
     [CHR ''['', CHR 0xD8, CHR 0xAA, CHR 0xD9, CHR 0x85, CHR '' '', CHR 0xD8, CHR 0xA7,
      CHR 0xD9, CHR 0x84, CHR 0xD9, CHR 0x85, CHR 0xD9, CHR 0x82, CHR 0xD8, CHR 0xA7,
      CHR 0xD8, CHR 0xB7, CHR 0xD8, CHR 0xB9, CHR 0xD8, CHR 0xA9, CHR '']'']"

definition ph_session_end_user :: string where
  \<comment> \<open>user side of a turn cut by the end of the session\<close>
  "ph_session_end_user =
     [CHR ''['', CHR 0xD8, CHR 0xA7, CHR 0xD9, CHR 0x86, CHR 0xD8, CHR 0xAA, CHR 0xD9,
      CHR 0x87, CHR 0xD8, CHR 0xA7, CHR 0xD8, CHR 0xA1, CHR '' '', CHR 0xD8, CHR 0xA7,
      CHR 0xD9, CHR 0x84, CHR 0xD8, CHR 0xAC, CHR 0xD9, CHR 0x84, CHR 0xD8, CHR 0xB3,
      CHR 0xD8, CHR 0xA9, CHR '']'']"

definition ph_session_end_bot :: string where
  \<comment> \<open>assistant side of a turn cut by the end of the session\<close>
  "ph_session_end_bot =
     [CHR ''['', CHR 0xD8, CHR 0xAA, CHR 0xD9, CHR 0x85, CHR '' '', CHR 0xD8, CHR 0xA5,
      CHR 0xD9, CHR 0x86, CHR 0xD9, CHR 0x87, CHR 0xD8, CHR 0xA7, CHR 0xD8, CHR 0xA1,
      CHR '' '', CHR 0xD8, CHR 0xA7, CHR 0xD9, CHR 0x84, CHR 0xD8, CHR 0xAC, CHR 0xD9,
      CHR 0x84, CHR 0xD8, CHR 0xB3, CHR 0xD8, CHR 0xA9, CHR '']'']"

definition note_gallery_closed :: string where
  \<comment> \<open>notification: the gallery was closed\<close>
  "note_gallery_closed =
     [CHR 0xD8, CHR 0xAA, CHR 0xD9, CHR 0x85, CHR '' '', CHR 0xD8, CHR 0xA5, CHR 0xD8,
      CHR 0xBA, CHR 0xD9, CHR 0x84, CHR 0xD8, CHR 0xA7, CHR 0xD9, CHR 0x82, CHR '' '',
      CHR 0xD9, CHR 0x85, CHR 0xD8, CHR 0xB9, CHR 0xD8, CHR 0xB1, CHR 0xD8, CHR 0xB6,
      CHR '' '', CHR 0xD8, CHR 0xA7, CHR 0xD9, CHR 0x84, CHR 0xD8, CHR 0xB5, CHR 0xD9,
      CHR 0x88, CHR 0xD8, CHR 0xB1]"

definition resp_default :: string where
  \<comment> \<open>the initial response: command executed\<close>
  "resp_default =
     [CHR 0xD8, CHR 0xAA, CHR 0xD9, CHR 0x85, CHR '' '', CHR 0xD8, CHR 0xAA, CHR 0xD9,
      CHR 0x86, CHR 0xD9, CHR 0x81, CHR 0xD9, CHR 0x8A, CHR 0xD8, CHR 0xB0, CHR '' '',
      CHR 0xD8, CHR 0xA7, CHR 0xD9, CHR 0x84, CHR 0xD8, CHR 0xA3, CHR 0xD9, CHR 0x85,
      CHR 0xD8, CHR 0xB1]"

definition resp_search_a :: string where
  \<comment> \<open>search result, up to the history number\<close>
  "resp_search_a =
     [CHR 0xD8, CHR 0xAA, CHR 0xD9, CHR 0x85, CHR '' '', CHR 0xD9, CHR 0x81, CHR 0xD8,
      CHR 0xAA, CHR 0xD8, CHR 0xAD, CHR '' '', CHR 0xD9, CHR 0x85, CHR 0xD8, CHR 0xB9,
      CHR 0xD8, CHR 0xB1, CHR 0xD8, CHR 0xB6, CHR '' '', CHR 0xD8, CHR 0xA7, CHR 0xD9,
      CHR 0x84, CHR 0xD8, CHR 0xB5, CHR 0xD9, CHR 0x88, CHR 0xD8, CHR 0xB1, CHR ''.'',
      CHR '' '', CHR 0xD8, CHR 0xA7, CHR 0xD9, CHR 0x84, CHR 0xD8, CHR 0xB9, CHR 0xD9,
      CHR 0x82, CHR 0xD8, CHR 0xA7, CHR 0xD8, CHR 0xB1, CHR '' '', CHR 0xD8, CHR 0xB1,
      CHR 0xD9, CHR 0x82, CHR 0xD9, CHR 0x85, CHR '' '']"

definition resp_search_b :: string where
  \<comment> \<open>search result, before the location\<close>
  "resp_search_b =
     [CHR ''.'', CHR '' '', CHR 0xD8, CHR 0xA7, CHR 0xD9, CHR 0x84, CHR 0xD9, CHR 0x85,
      CHR 0xD9, CHR 0x88, CHR 0xD9, CHR 0x82, CHR 0xD8, CHR 0xB9, CHR '':'', CHR '' '']"

definition resp_search_c :: string where
  \<comment> \<open>search result, before the type\<close>
  "resp_search_c =
     [CHR ''.'', CHR '' '', CHR 0xD8, CHR 0xA7, CHR 0xD9, CHR 0x84, CHR 0xD9, CHR 0x86,
      CHR 0xD9, CHR 0x88, CHR 0xD8, CHR 0xB9, CHR '':'', CHR '' '']"

definition resp_search_d :: string where
  \<comment> \<open>search result, the end\<close>
  "resp_search_d =
     [CHR ''.'', CHR '' '', CHR 0xD8, CHR 0xA7, CHR 0xD9, CHR 0x84, CHR 0xD8, CHR 0xB5,
      CHR 0xD9, CHR 0x88, CHR 0xD8, CHR 0xB1, CHR '' '', CHR 0xD9, CHR 0x85, CHR 0xD8,
      CHR 0xB9, CHR 0xD8, CHR 0xB1, CHR 0xD9, CHR 0x88, CHR 0xD8, CHR 0xB6, CHR 0xD8,
      CHR 0xA9, CHR '' '', CHR 0xD8, CHR 0xA7, CHR 0xD9, CHR 0x84, CHR 0xD8, CHR 0xA2,
      CHR 0xD9, CHR 0x86, CHR ''.'']"

definition resp_alternatives_a :: string where
  \<comment> \<open>no match, before the alternatives\<close>
  "resp_alternatives_a =
     [CHR 0xD8, CHR 0xB9, CHR 0xD8, CHR 0xB0, CHR 0xD8, CHR 0xB1, CHR 0xD8, CHR 0xA7,
      CHR 0xD9, CHR 0x8B, CHR 0xD8, CHR 0x8C, CHR '' '', CHR 0xD9, CHR 0x84, CHR 0xD8,
      CHR 0xA7, CHR '' '', CHR 0xD9, CHR 0x8A, CHR 0xD9, CHR 0x88, CHR 0xD8, CHR 0xAC,
      CHR 0xD8, CHR 0xAF, CHR '' '', CHR 0xD8, CHR 0xB9, CHR 0xD9, CHR 0x82, CHR 0xD8,
      CHR 0xA7, CHR 0xD8, CHR 0xB1, CHR 0xD8, CHR 0xA7, CHR 0xD8, CHR 0xAA, CHR '' '',
      CHR 0xD8, CHR 0xA8, CHR 0xD9, CHR 0x87, CHR 0xD8, CHR 0xB0, CHR 0xD9, CHR 0x87,
      CHR '' '', CHR 0xD8, CHR 0xA7, CHR 0xD9, CHR 0x84, CHR 0xD9, CHR 0x85, CHR 0xD9,
      CHR 0x88, CHR 0xD8, CHR 0xA7, CHR 0xD8, CHR 0xB5, CHR 0xD9, CHR 0x81, CHR 0xD8,
      CHR 0xA7, CHR 0xD8, CHR 0xAA, CHR '' '', CHR 0xD9, CHR 0x87, CHR 0xD9, CHR 0x86,
      CHR 0xD8, CHR 0xA7, CHR ''.'', CHR '' '', CHR 0xD8, CHR 0xB9, CHR 0xD9, CHR 0x86,
      CHR 0xD8, CHR 0xAF, CHR 0xD9, CHR 0x86, CHR 0xD8, CHR 0xA7, CHR '' '', CHR 0xD9,
      CHR 0x81, CHR 0xD9, CHR 0x8A, CHR '':'', CHR '' '']"

definition resp_alternatives_b :: string where
  \<comment> \<open>no match, after the alternatives\<close>
  "resp_alternatives_b =
     [CHR ''.'', CHR '' '', CHR 0xD8, CHR 0xAA, CHR 0xD8, CHR 0xAD, CHR 0xD8, CHR 0xA8,
      CHR '' '', CHR 0xD8, CHR 0xA3, CHR 0xD9, CHR 0x8A, CHR '' '', CHR 0xD8, CHR 0xAD,
      CHR 0xD9, CHR 0x8A, CHR 0xD8, CHR 0x9F]"

definition list_separator :: string where
  \<comment> \<open>the Arabic comma and a space, joining the alternatives\<close>
  "list_separator =
     [CHR 0xD8, CHR 0x8C, CHR '' '']"

definition resp_nothing :: string where
  \<comment> \<open>no property available\<close>
  "resp_nothing =
     [CHR 0xD8, CHR 0xB9, CHR 0xD8, CHR 0xB0, CHR 0xD8, CHR 0xB1, CHR 0xD8, CHR 0xA7,
      CHR 0xD9, CHR 0x8B, CHR 0xD8, CHR 0x8C, CHR '' '', CHR 0xD9, CHR 0x84, CHR 0xD8,
      CHR 0xA7, CHR '' '', CHR 0xD9, CHR 0x8A, CHR 0xD9, CHR 0x88, CHR 0xD8, CHR 0xAC,
      CHR 0xD8, CHR 0xAF, CHR '' '', CHR 0xD8, CHR 0xB9, CHR 0xD9, CHR 0x82, CHR 0xD8,
      CHR 0xA7, CHR 0xD8, CHR 0xB1, CHR 0xD8, CHR 0xA7, CHR 0xD8, CHR 0xAA, CHR '' '',
      CHR 0xD9, CHR 0x85, CHR 0xD8, CHR 0xAA, CHR 0xD9, CHR 0x88, CHR 0xD9, CHR 0x81,
      CHR 0xD8, CHR 0xB1, CHR 0xD8, CHR 0xA9, CHR ''.'', CHR '' '', CHR 0xD8, CHR 0xAA,
      CHR 0xD8, CHR 0xAD, CHR 0xD8, CHR 0xA8, CHR '' '', CHR 0xD8, CHR 0xA3, CHR 0xD8,
      CHR 0xB3, CHR 0xD8, CHR 0xAC, CHR 0xD9, CHR 0x84, CHR '' '', CHR 0xD8, CHR 0xB7,
      CHR 0xD9, CHR 0x84, CHR 0xD8, CHR 0xA8, CHR 0xD9, CHR 0x83, CHR 0xD8, CHR 0x9F]"

definition resp_search_error :: string where
  \<comment> \<open>the apology for a failed search\<close>
  "resp_search_error =
     [CHR 0xD8, CHR 0xAD, CHR 0xD8, CHR 0xAF, CHR 0xD8, CHR 0xAB, CHR '' '', CHR 0xD8,
      CHR 0xAE, CHR 0xD8, CHR 0xB7, CHR 0xD8, CHR 0xA3, CHR '' '', CHR 0xD9, CHR 0x81,
      CHR 0xD9, CHR 0x8A, CHR '' '', CHR 0xD8, CHR 0xA7, CHR 0xD9, CHR 0x84, CHR 0xD8,
      CHR 0xA8, CHR 0xD8, CHR 0xAD, CHR 0xD8, CHR 0xAB, CHR ''.'', CHR '' '', CHR 0xD8,
      CHR 0xAD, CHR 0xD8, CHR 0xA7, CHR 0xD9, CHR 0x88, CHR 0xD9, CHR 0x84, CHR '' '',
      CHR 0xD9, CHR 0x85, CHR 0xD8, CHR 0xB1, CHR 0xD8, CHR 0xA9, CHR '' '', CHR 0xD8,
      CHR 0xAB, CHR 0xD8, CHR 0xA7, CHR 0xD9, CHR 0x86, CHR 0xD9, CHR 0x8A, CHR 0xD8,
      CHR 0xA9, CHR ''.'']"

definition resp_previous_a :: string where
  \<comment> \<open>previous property opened, up to its number\<close>
  "resp_previous_a =
     [CHR 0xD8, CHR 0xAA, CHR 0xD9, CHR 0x85, CHR '' '', CHR 0xD9, CHR 0x81, CHR 0xD8,
      CHR 0xAA, CHR 0xD8, CHR 0xAD, CHR '' '', CHR 0xD8, CHR 0xA7, CHR 0xD9, CHR 0x84,
      CHR 0xD8, CHR 0xB9, CHR 0xD9, CHR 0x82, CHR 0xD8, CHR 0xA7, CHR 0xD8, CHR 0xB1,
      CHR '' '', CHR 0xD8, CHR 0xB1, CHR 0xD9, CHR 0x82, CHR 0xD9, CHR 0x85, CHR '' '']"

definition resp_previous_b :: string where
  \<comment> \<open>previous property opened, the end\<close>
  "resp_previous_b =
     [CHR ''.'', CHR '' '', CHR 0xD8, CHR 0xA7, CHR 0xD9, CHR 0x84, CHR 0xD8, CHR 0xB5,
      CHR 0xD9, CHR 0x88, CHR 0xD8, CHR 0xB1, CHR '' '', CHR 0xD9, CHR 0x85, CHR 0xD8,
      CHR 0xB9, CHR 0xD8, CHR 0xB1, CHR 0xD9, CHR 0x88, CHR 0xD8, CHR 0xB6, CHR 0xD8,
      CHR 0xA9, CHR ''.'']"

definition resp_no_such_a :: string where
  \<comment> \<open>no property with this number, up to the count shown\<close>
  "resp_no_such_a =
     [CHR 0xD9, CHR 0x85, CHR 0xD8, CHR 0xA7, CHR '' '', CHR 0xD8, CHR 0xB9, CHR 0xD9,
      CHR 0x86, CHR 0xD8, CHR 0xAF, CHR 0xD9, CHR 0x8A, CHR '' '', CHR 0xD8, CHR 0xB9,
      CHR 0xD9, CHR 0x82, CHR 0xD8, CHR 0xA7, CHR 0xD8, CHR 0xB1, CHR '' '', CHR 0xD8,
      CHR 0xA8, CHR 0xD9, CHR 0x87, CHR 0xD8, CHR 0xB0, CHR 0xD8, CHR 0xA7, CHR '' '',
      CHR 0xD8, CHR 0xA7, CHR 0xD9, CHR 0x84, CHR 0xD8, CHR 0xB1, CHR 0xD9, CHR 0x82,
      CHR 0xD9, CHR 0x85, CHR ''.'', CHR '' '', CHR 0xD8, CHR 0xB9, CHR 0xD8, CHR 0xB1,
      CHR 0xD8, CHR 0xB6, CHR 0xD8, CHR 0xAA, CHR '' '']"

definition resp_no_such_b :: string where
  \<comment> \<open>no property with this number, the end\<close>
  "resp_no_such_b =
     [CHR '' '', CHR 0xD8, CHR 0xB9, CHR 0xD9, CHR 0x82, CHR 0xD8, CHR 0xA7, CHR 0xD8,
      CHR 0xB1, CHR 0xD8, CHR 0xA7, CHR 0xD8, CHR 0xAA, CHR ''.'']"

definition resp_gallery_already :: string where
  \<comment> \<open>the gallery is already open\<close>
  "resp_gallery_already =
     [CHR 0xD9, CHR 0x85, CHR 0xD8, CHR 0xB9, CHR 0xD8, CHR 0xB1, CHR 0xD8, CHR 0xB6,
      CHR '' '', CHR 0xD8, CHR 0xA7, CHR 0xD9, CHR 0x84, CHR 0xD8, CHR 0xB5, CHR 0xD9,
      CHR 0x88, CHR 0xD8, CHR 0xB1, CHR '' '', CHR 0xD9, CHR 0x85, CHR 0xD9, CHR 0x81,
      CHR 0xD8, CHR 0xAA, CHR 0xD9, CHR 0x88, CHR 0xD8, CHR 0xAD, CHR '' '', CHR 0xD9,
      CHR 0x81, CHR 0xD8, CHR 0xB9, CHR 0xD9, CHR 0x84, CHR 0xD8, CHR 0xA7, CHR 0xD9,
      CHR 0x8B, CHR '':'', CHR '' '']"

definition resp_gallery_opened :: string where
  \<comment> \<open>the gallery was opened\<close>
  "resp_gallery_opened =
     [CHR 0xD8, CHR 0xAA, CHR 0xD9, CHR 0x85, CHR '' '', CHR 0xD9, CHR 0x81, CHR 0xD8,
      CHR 0xAA, CHR 0xD8, CHR 0xAD, CHR '' '', CHR 0xD9, CHR 0x85, CHR 0xD8, CHR 0xB9,
      CHR 0xD8, CHR 0xB1, CHR 0xD8, CHR 0xB6, CHR '' '', CHR 0xD8, CHR 0xA7, CHR 0xD9,
      CHR 0x84, CHR 0xD8, CHR 0xB5, CHR 0xD9, CHR 0x88, CHR 0xD8, CHR 0xB1, CHR '':'',
      CHR '' '']"

definition resp_search_first :: string where
  \<comment> \<open>search for a property first\<close>
  "resp_search_first =
     [CHR 0xD8, CHR 0xA7, CHR 0xD8, CHR 0xA8, CHR 0xD8, CHR 0xAD, CHR 0xD8, CHR 0xAB,
      CHR '' '', CHR 0xD8, CHR 0xB9, CHR 0xD9, CHR 0x86, CHR '' '', CHR 0xD8, CHR 0xB9,
      CHR 0xD9, CHR 0x82, CHR 0xD8, CHR 0xA7, CHR 0xD8, CHR 0xB1, CHR '' '', CHR 0xD8,
      CHR 0xA3, CHR 0xD9, CHR 0x88, CHR 0xD9, CHR 0x84, CHR 0xD8, CHR 0xA7, CHR 0xD9,
      CHR 0x8B, CHR ''.'']"

definition resp_gallery_closed :: string where
  \<comment> \<open>the gallery was closed\<close>
  "resp_gallery_closed =
     [CHR 0xD8, CHR 0xAA, CHR 0xD9, CHR 0x85, CHR '' '', CHR 0xD8, CHR 0xA5, CHR 0xD8,
      CHR 0xBA, CHR 0xD9, CHR 0x84, CHR 0xD8, CHR 0xA7, CHR 0xD9, CHR 0x82, CHR '' '',
      CHR 0xD9, CHR 0x85, CHR 0xD8, CHR 0xB9, CHR 0xD8, CHR 0xB1, CHR 0xD8, CHR 0xB6,
      CHR '' '', CHR 0xD8, CHR 0xA7, CHR 0xD9, CHR 0x84, CHR 0xD8, CHR 0xB5, CHR 0xD9,
      CHR 0x88, CHR 0xD8, CHR 0xB1, CHR ''.'']"

definition resp_lead_form :: string where
  \<comment> \<open>the lead form was opened\<close>
  "resp_lead_form =
     [CHR 0xD8, CHR 0xAA, CHR 0xD9, CHR 0x85, CHR '' '', CHR 0xD9, CHR 0x81, CHR 0xD8,
      CHR 0xAA, CHR 0xD8, CHR 0xAD, CHR '' '', CHR 0xD9, CHR 0x86, CHR 0xD9, CHR 0x85,
      CHR 0xD9, CHR 0x88, CHR 0xD8, CHR 0xB0, CHR 0xD8, CHR 0xAC, CHR '' '', CHR 0xD8,
      CHR 0xA7, CHR 0xD9, CHR 0x84, CHR 0xD8, CHR 0xAA, CHR 0xD8, CHR 0xB3, CHR 0xD8,
      CHR 0xAC, CHR 0xD9, CHR 0x8A, CHR 0xD9, CHR 0x84, CHR ''.'', CHR '' '', CHR 0xD8,
      CHR 0xA7, CHR 0xD8, CHR 0xB7, CHR 0xD9, CHR 0x84, CHR 0xD8, CHR 0xA8, CHR '' '',
      CHR 0xD9, CHR 0x85, CHR 0xD9, CHR 0x86, CHR '' '', CHR 0xD8, CHR 0xA7, CHR 0xD9,
      CHR 0x84, CHR 0xD8, CHR 0xB9, CHR 0xD9, CHR 0x85, CHR 0xD9, CHR 0x8A, CHR 0xD9,
      CHR 0x84, CHR '' '', CHR 0xD8, CHR 0xAA, CHR 0xD8, CHR 0xB9, CHR 0xD8, CHR 0xA8,
      CHR 0xD8, CHR 0xA6, CHR 0xD8, CHR 0xA9, CHR '' '', CHR 0xD8, CHR 0xA8, CHR 0xD9,
      CHR 0x8A, CHR 0xD8, CHR 0xA7, CHR 0xD9, CHR 0x86, CHR 0xD8, CHR 0xA7, CHR 0xD8,
      CHR 0xAA, CHR 0xD9, CHR 0x87, CHR ''.'']"

section \<open>The application state (App)\<close>

text \<open>
  A property of the catalogue (\<open>types.ts\<close>); \<open>prop_id\<close>, \<open>prop_location\<close> and \<open>prop_type\<close> are its
  fields \<open>id\<close>, \<open>location\<close> and \<open>type\<close>.
\<close>

record Property =
  prop_id :: string
  title :: string
  price :: string
  prop_location :: string
  description :: string
  images :: "string list"
  prop_type :: string

text \<open>
  A function call of the backend: \<open>args\<close> may be missing altogether, and each argument of
  a present \<open>args\<close> object may be missing. The index is a number of the host language, here
  a rational.
\<close>

record tool_args =
  query :: "string option"
  index :: "rat option"

record function_call =
  fc_name :: string
  fc_args :: "tool_args option"
  fc_id :: string

text \<open>A call of \<open>session.sendToolResponse\<close>: the id and the name of the call and the result.\<close>

record tool_response =
  resp_id :: string
  resp_name :: string
  resp_result :: string

text \<open>
  The callbacks handed to \<open>setTimeout\<close> by the component: the release of the dispatcher's
  guard (after 100 ms) and the reconnection (after one second). The state of an audio
  context, and the kinds of notification.
\<close>

datatype timer = ReleaseGuard | Reconnect

datatype context_state = Running | Suspended | Closed

datatype notification_type = Success | Info | Warning

text \<open>
  The state of the component \<open>App\<close>: what \<open>useState\<close> holds, what the references hold, and
  what the component has done to its surroundings. An audio context reference is \<open>None\<close> for
  \<open>null\<close>; the session and its promise are handles; the set of active sources holds the
  numbers of the source nodes, numbered as they are created; the cursor \<open>nextStartTime\<close> is
  a rational number of seconds; \<open>abort\<close> are the abort controllers; \<open>sink\<close> is the state of
  the log sink; \<open>toolResponses\<close> are the responses sent so far; \<open>timers\<close> are the timeouts
  that are pending; \<open>pendingSearch\<close> are the calls of \<open>handleToolCall\<close> that wait for their
  search.
\<close>

record app =
  \<comment> \<open>component state\<close>
  isRecording :: bool
  activeProperty :: "Property option"
  propertyHistory :: "Property list"
  showGallery :: bool
  showLeadForm :: bool
  statusMessage :: string
  transcript :: "(string \<times> string) list"
  notification :: "(string \<times> notification_type) option"
  \<comment> \<open>references\<close>
  audioContext :: "context_state option"
  outputAudioContext :: "context_state option"
  nextStartTime :: rat
  sources :: "nat set"
  sessionRef :: "nat option"
  sessionPromiseRef :: "nat option"
  streamRef :: bool
  scriptProcessorRef :: bool
  currentInputTranscription :: string
  currentOutputTranscription :: string
  showGalleryRef :: bool
  isProcessingRef :: bool
  showLeadFormRef :: bool
  reconnectAttemptsRef :: nat
  toolsUsedRef :: "string list"
  turnStartTimeRef :: nat
  abort :: abort_state
  \<comment> \<open>the surroundings: storage, backend, timers, suspended calls, source handles handed out\<close>
  sink :: sink
  toolResponses :: "tool_response list"
  timers :: "timer list"
  pendingSearch :: "function_call list"
  sourcesCreated :: nat

text \<open>
  What a callback sees of the component state is what the render that created it held:
  \<open>handleToolCall\<close>, \<open>onmessage\<close> and \<open>stopSession\<close> read \<open>activeProperty\<close>,
  \<open>propertyHistory\<close> and \<open>isRecording\<close> from their closure, and write through the setters.
\<close>

record render =
  r_activeProperty :: "Property option"
  r_propertyHistory :: "Property list"
  r_isRecording :: bool


definition maxReconnectAttempts :: nat where
  "maxReconnectAttempts = 3"

text \<open>How a block of statements ends: normally with a value, or by throwing.\<close>

datatype 'a completion = Normal 'a | Throws js_error

definition type_error :: js_error where
  "type_error = \<lparr> err_name = ''TypeError'', message = ''Cannot read properties of undefined'' \<rparr>"

section \<open>The tool-call dispatcher (\<open>handleToolCall\<close>)\<close>

definition handleCloseGallery :: "app \<Rightarrow> app" where
  "handleCloseGallery s =
     s\<lparr> showGallery := False, showGalleryRef := False,
        notification := Some (note_gallery_closed, Info) \<rparr>"

text \<open>\<open>(fc.args.index || 1) - 1\<close>: a missing index and the index \<open>0\<close> are falsy.\<close>

definition zero_based :: "rat option \<Rightarrow> rat" where
  "zero_based i = (case i of None \<Rightarrow> 1 | Some v \<Rightarrow> if v = 0 then 1 else v) - 1"

text \<open>An array holds an element only at an integer index.\<close>

definition is_integer :: "rat \<Rightarrow> bool" where
  "is_integer r = (of_int \<lfloor>r\<rfloor> = r)"

text \<open>
  The branch \<open>show_previous_property\<close> of the switch. Reading \<open>fc.args.index\<close> of a missing
  \<open>args\<close> throws; an index within the bounds that is no integer reads \<open>undefined\<close> from the
  array, which is made the active property before \<open>undefined.title\<close> throws.
\<close>

definition show_previous_property :: "render \<Rightarrow> function_call \<Rightarrow> app \<Rightarrow> app \<times> string completion" where
  "show_previous_property cap fc s =
     (case fc_args fc of
        None \<Rightarrow> (s, Throws type_error)
      | Some a \<Rightarrow>
          (let i = zero_based (index a) in
           if 0 \<le> i \<and> i < of_nat (length (r_propertyHistory cap)) then
             if is_integer i then
               (let prevProperty = r_propertyHistory cap ! nat \<lfloor>i\<rfloor> in
                (s\<lparr> activeProperty := Some prevProperty, showGallery := True,
                    showGalleryRef := True \<rparr>,
                 Normal (resp_previous_a @ show_nat (nat \<lfloor>i\<rfloor> + 1) @ '': '' @ title prevProperty
                         @ resp_previous_b)))
             else
               (s\<lparr> activeProperty := None, showGallery := True, showGalleryRef := True \<rparr>,
                Throws type_error)
           else
             (s, Normal (resp_no_such_a @ show_nat (length (r_propertyHistory cap))
                         @ resp_no_such_b))))"

text \<open>The branch \<open>open_gallery\<close>, on the active property that the closure holds.\<close>

definition open_gallery :: "render \<Rightarrow> app \<Rightarrow> app \<times> string completion" where
  "open_gallery cap s =
     (case r_activeProperty cap of
        Some p \<Rightarrow>
          if showGalleryRef s then (s, Normal (resp_gallery_already @ title p @ ''.''))
          else (s\<lparr> showGallery := True, showGalleryRef := True \<rparr>,
                Normal (resp_gallery_opened @ title p @ ''.''))
      | None \<Rightarrow> (s, Normal resp_search_first))"

text \<open>The cases of the switch that run without waiting; an unknown name keeps the initial response.\<close>

definition sync_tool :: "render \<Rightarrow> function_call \<Rightarrow> app \<Rightarrow> app \<times> string completion" where
  "sync_tool cap fc s =
     (if fc_name fc = ''show_previous_property'' then show_previous_property cap fc s
      else if fc_name fc = ''open_gallery'' then open_gallery cap s
      else if fc_name fc = ''close_gallery'' then (handleCloseGallery s, Normal resp_gallery_closed)
      else if fc_name fc = ''open_lead_form'' then
        (s\<lparr> showLeadForm := True, showLeadFormRef := True \<rparr>, Normal resp_lead_form)
      else (s, Normal resp_default))"

text \<open>
  The end of a call: the response goes to the backend when the body did not throw and a
  session promise is there; the outer \<open>catch\<close> only logs; \<open>finally\<close> sets the timer that
  releases the guard 100 ms later.
\<close>

definition finish_call :: "function_call \<Rightarrow> string completion \<Rightarrow> app \<Rightarrow> app" where
  "finish_call fc c s =
     (let s1 =
        (case c of
           Throws err \<Rightarrow> s
         | Normal response \<Rightarrow>
             (case sessionPromiseRef s of
                None \<Rightarrow> s
              | Some session \<Rightarrow>
                  s\<lparr> toolResponses := toolResponses s @
                       [\<lparr> resp_id = fc_id fc, resp_name = fc_name fc, resp_result = response \<rparr>] \<rparr>))
      in s1\<lparr> timers := timers s1 @ [ReleaseGuard] \<rparr>)"

text \<open>
  Where a call stands when \<open>handleToolCall\<close> hands control back: dropped at the guard,
  waiting for its search, or finished.
\<close>

datatype call_phase = Dropped | Awaiting | Finished

text \<open>
  A call that passes the guard: the flag is set, the name of the tool is recorded, and a
  search or a return to a previous property closes an open lead form.
\<close>

definition accept_call :: "function_call \<Rightarrow> app \<Rightarrow> app" where
  "accept_call fc s =
     (let s1 = s\<lparr> isProcessingRef := True, toolsUsedRef := toolsUsedRef s @ [fc_name fc] \<rparr>
      in if (fc_name fc = ''search_property'' \<or> fc_name fc = ''show_previous_property'')
            \<and> showLeadFormRef s1
         then s1\<lparr> showLeadForm := False, showLeadFormRef := False \<rparr> else s1)"

text \<open>
  The call up to its first wait. A search whose \<open>args\<close> are missing throws inside the inner
  \<open>try\<close> before anything is awaited and is answered by the apology.
\<close>

definition handleToolCall_begin :: "render \<Rightarrow> function_call \<Rightarrow> app \<Rightarrow> app \<times> call_phase" where
  "handleToolCall_begin cap fc s =
     (if isProcessingRef s then (s, Dropped)
      else if fc_name fc = ''search_property'' then
        (case fc_args fc of
           None \<Rightarrow> (finish_call fc (Normal resp_search_error) (accept_call fc s), Finished)
         | Some a \<Rightarrow>
             ((accept_call fc s)\<lparr> pendingSearch := pendingSearch (accept_call fc s) @ [fc] \<rparr>,
              Awaiting))
      else
        (case sync_tool cap fc (accept_call fc s) of (s3, c) \<Rightarrow> (finish_call fc c s3, Finished)))"

text \<open>
  How the search settles: it throws, or it returns the matching properties; when there are
  none, \<open>getAlternativeLocations\<close> returns the alternatives or throws (\<open>None\<close>).
\<close>

datatype search_outcome = SearchThrows | SearchReturns "Property list" "string list option"

text \<open>\<open>Array.prototype.join\<close>\<close>

fun join :: "string \<Rightarrow> string list \<Rightarrow> string" where
  "join sep [] = []"
| "join sep [x] = x"
| "join sep (x # y # ys) = x @ sep @ join sep (y # ys)"

text \<open>
  The branch \<open>search_property\<close> once the search has settled. The history is extended through
  the functional update of its setter, on the history of the state; the number in the
  response is computed from the history that the closure holds.
\<close>

definition search_property :: "render \<Rightarrow> search_outcome \<Rightarrow> app \<Rightarrow> app \<times> string" where
  "search_property cap outcome s =
     (case outcome of
        SearchThrows \<Rightarrow> (s, resp_search_error)
      | SearchReturns results alternatives \<Rightarrow>
          (case results of
             property # others \<Rightarrow>
               (s\<lparr> activeProperty := Some property,
                   propertyHistory :=
                     (if find (\<lambda>p. prop_id p = prop_id property) (propertyHistory s) = None
                      then propertyHistory s @ [property] else propertyHistory s),
                   showGallery := True, showGalleryRef := True \<rparr>,
                resp_search_a @ show_nat (length (r_propertyHistory cap) + 1) @ '': ''
                  @ title property @ resp_search_b @ prop_location property @ resp_search_c
                  @ prop_type property @ ''. '' @ description property @ resp_search_d)
           | [] \<Rightarrow>
               (case alternatives of
                  None \<Rightarrow> (s, resp_search_error)
                | Some alts \<Rightarrow>
                    if alts \<noteq> [] then
                      (s, resp_alternatives_a @ join list_separator alts @ resp_alternatives_b)
                    else (s, resp_nothing))))"

text \<open>The rest of a search call, from the moment its search settles.\<close>

definition handleToolCall_resume :: "render \<Rightarrow> function_call \<Rightarrow> search_outcome \<Rightarrow> app \<Rightarrow> app" where
  "handleToolCall_resume cap fc outcome s =
     (case search_property cap outcome (s\<lparr> pendingSearch := remove1 fc (pendingSearch s) \<rparr>) of
        (s1, response) \<Rightarrow> finish_call fc (Normal response) s1)"

text \<open>
  A whole call, with what other handlers do to the state (\<open>between\<close>) while the search is
  pending.
\<close>

definition handleToolCall ::
  "render \<Rightarrow> (app \<Rightarrow> app) \<Rightarrow> search_outcome \<Rightarrow> function_call \<Rightarrow> app \<Rightarrow> app" where
  "handleToolCall cap between outcome fc s =
     (case handleToolCall_begin cap fc s of
        (s1, Awaiting) \<Rightarrow> handleToolCall_resume cap fc outcome (between s1)
      | (s1, _) \<Rightarrow> s1)"

text \<open>The callback of the guard timer.\<close>

definition release_guard :: "app \<Rightarrow> app" where
  "release_guard s = s\<lparr> isProcessingRef := False \<rparr>"

section \<open>Turn bookkeeping and inbound messages (\<open>onmessage\<close>)\<close>

text \<open>
  The call \<open>saveInquiry(user, bot, {propertyId: activeProperty?.id, toolsUsed: [...], status,
  startTime: turnStartTimeRef.current})\<close> that the three flushing places share.
\<close>

definition log_turn :: "render \<Rightarrow> sink_env \<Rightarrow> string \<Rightarrow> string \<Rightarrow> ConversationStatus \<Rightarrow> app \<Rightarrow> app" where
  "log_turn cap e userMsg botMsg st s =
     s\<lparr> sink := snd (saveInquiry e userMsg botMsg
         (Some \<lparr> opt_propertyId = map_option prop_id (r_activeProperty cap),
                 opt_toolsUsed = Some (toolsUsedRef s),
                 opt_status = Some st,
                 opt_startTime = Some (turnStartTimeRef s) \<rparr>) (sink s)) \<rparr>"

text \<open>
  What the handler reads of a server message: the audio data of the first part of the model
  turn, the marks \<open>interrupted\<close> and \<open>turnComplete\<close>, the texts of the two transcriptions,
  and the function calls (none when the message has no tool call).
\<close>

record LiveServerMessage =
  audioData :: "string option"
  interrupted :: bool
  inputTranscription :: "string option"
  outputTranscription :: "string option"
  turnComplete :: bool
  toolCall :: "function_call list"

text \<open>The body of \<open>if (message.serverContent?.interrupted)\<close>.\<close>

definition on_interrupted :: "render \<Rightarrow> sink_env \<Rightarrow> app \<Rightarrow> app" where
  "on_interrupted cap e s =
     (let s1 =
        (if currentInputTranscription s \<noteq> [] \<or> currentOutputTranscription s \<noteq> [] then
           (log_turn cap e (or_else (currentInputTranscription s) ph_interrupted_user)
              (or_else (currentOutputTranscription s) ph_interrupted_bot) Interrupted s)
           \<lparr> toolsUsedRef := [], currentInputTranscription := [],
             currentOutputTranscription := [] \<rparr>
         else s);
          s2 = s1\<lparr> sources := {}, nextStartTime := 0 \<rparr>
      in if showGalleryRef s2 then s2\<lparr> showGallery := False, showGalleryRef := False \<rparr> else s2)"

text \<open>
  A fragment of the input transcript starts the clock of the turn when it is not running
  and is appended; a fragment of the output transcript is appended.
\<close>

definition on_inputTranscription :: "sink_env \<Rightarrow> string \<Rightarrow> app \<Rightarrow> app" where
  "on_inputTranscription e text s =
     s\<lparr> turnStartTimeRef := (if turnStartTimeRef s = 0 then now e else turnStartTimeRef s),
        currentInputTranscription := currentInputTranscription s @ text \<rparr>"

definition on_outputTranscription :: "string \<Rightarrow> app \<Rightarrow> app" where
  "on_outputTranscription text s =
     s\<lparr> currentOutputTranscription := currentOutputTranscription s @ text \<rparr>"

text \<open>The body of \<open>if (message.serverContent?.turnComplete)\<close>.\<close>

definition on_turnComplete :: "render \<Rightarrow> sink_env \<Rightarrow> app \<Rightarrow> app" where
  "on_turnComplete cap e s =
     (let userMsg = currentInputTranscription s;
          botMsg = currentOutputTranscription s;
          s1 = s\<lparr> transcript := slice_last 5 (transcript s @ [(userMsg, botMsg)]) \<rparr>;
          s2 = (if userMsg \<noteq> [] \<or> botMsg \<noteq> [] then log_turn cap e userMsg botMsg Complete s1
                else s1)
      in s2\<lparr> currentInputTranscription := [], currentOutputTranscription := [],
            toolsUsedRef := [], turnStartTimeRef := 0 \<rparr>)"

text \<open>The calls of a message are started one after the other, none is awaited.\<close>

fun start_calls :: "render \<Rightarrow> function_call list \<Rightarrow> app \<Rightarrow> app" where
  "start_calls cap [] s = s"
| "start_calls cap (fc # fcs) s = start_calls cap fcs (fst (handleToolCall_begin cap fc s))"

text \<open>The handler from the interruption check on: it runs without waiting.\<close>

definition onmessage_rest :: "render \<Rightarrow> sink_env \<Rightarrow> LiveServerMessage \<Rightarrow> app \<Rightarrow> app" where
  "onmessage_rest cap e m s =
     (let s1 = (if interrupted m then on_interrupted cap e s else s);
          s2 = (case inputTranscription m of None \<Rightarrow> s1
                | Some text \<Rightarrow> on_inputTranscription e text s1);
          s3 = (case outputTranscription m of None \<Rightarrow> s2
                | Some text \<Rightarrow> on_outputTranscription text s2);
          s4 = (if turnComplete m then on_turnComplete cap e s3 else s3)
      in start_calls cap (toolCall m) s4)"

text \<open>\<open>ref.current && ref.current.state !== 'closed'\<close>\<close>

definition context_open :: "context_state option \<Rightarrow> bool" where
  "context_open c = (case c of None \<Rightarrow> False | Some st \<Rightarrow> st \<noteq> Closed)"

text \<open>\<open>source.start(cursor); cursor += buffer.duration; sources.add(source)\<close>\<close>

definition schedule_chunk :: "rat \<Rightarrow> app \<Rightarrow> app" where
  "schedule_chunk d s =
     s\<lparr> nextStartTime := nextStartTime s + d,
        sources := insert (sourcesCreated s) (sources s),
        sourcesCreated := Suc (sourcesCreated s) \<rparr>"

text \<open>\<open>source.onended\<close>\<close>

definition source_ended :: "nat \<Rightarrow> app \<Rightarrow> app" where
  "source_ended i s = s\<lparr> sources := sources s - {i} \<rparr>"

text \<open>
  What a message handler reads from its surroundings: the clock, the time of the output
  context, and the duration of the decoded buffer (\<open>None\<close> when decoding throws).
\<close>

record msg_env =
  clock :: sink_env
  currentTime :: rat
  decoded :: "rat option"

text \<open>
  The whole handler. A message with audio data, while the output context is open, waits for
  the decoder (\<open>awaits_decoder\<close>); \<open>between\<close> is what other
  handlers do to the state meanwhile. A decoding error is caught by the handler's \<open>catch\<close>
  and an output context that is gone after the wait makes it return: both skip the rest of
  the message.
\<close>

definition awaits_decoder :: "LiveServerMessage \<Rightarrow> app \<Rightarrow> bool" where
  "awaits_decoder m s =
     (audioData m \<noteq> None \<and> audioData m \<noteq> Some [] \<and> context_open (outputAudioContext s))"

definition onmessage :: "render \<Rightarrow> msg_env \<Rightarrow> (app \<Rightarrow> app) \<Rightarrow> LiveServerMessage \<Rightarrow> app \<Rightarrow> app" where
  "onmessage cap e between m s =
     (if sessionRef s = None then s
      else if awaits_decoder m s then
        (let s1 = between (s\<lparr> nextStartTime := max (nextStartTime s) (currentTime e) \<rparr>) in
         case decoded e of
           None \<Rightarrow> s1
         | Some d \<Rightarrow>
             if \<not> context_open (outputAudioContext s1) then s1
             else onmessage_rest cap (clock e) m (schedule_chunk d s1))
      else onmessage_rest cap (clock e) m s)"

section \<open>Stopping the session (\<open>stopSession\<close>)\<close>

text \<open>
  \<open>abortControllerRef.current.abort(); abortControllerRef.current = null\<close>, when there is a
  controller.
\<close>

definition abort_current :: "abort_state \<Rightarrow> abort_state" where
  "abort_current a =
     (case abortControllerRef a of
        None \<Rightarrow> a
      | Some c \<Rightarrow> a\<lparr> signals := (signals a)[c := True], abortControllerRef := None \<rparr>)"

text \<open>
  \<open>stopSession\<close>: the pending retry is cancelled, a turn with text is saved as ended with
  the session, the session id is reset, playback is cleared, the audio contexts that are not
  closed are closed and dropped, the session and what feeds it are dropped, and the status
  is set to the idle prompt.
\<close>

definition stopSession :: "render \<Rightarrow> sink_env \<Rightarrow> app \<Rightarrow> app" where
  "stopSession cap e s =
     (let s1 = s\<lparr> abort := abort_current (abort s) \<rparr>;
          s2 =
            (if currentInputTranscription s1 \<noteq> [] \<or> currentOutputTranscription s1 \<noteq> [] then
               (log_turn cap e (or_else (currentInputTranscription s1) ph_session_end_user)
                  (or_else (currentOutputTranscription s1) ph_session_end_bot) Session_end s1)
               \<lparr> currentInputTranscription := [], currentOutputTranscription := [],
                 toolsUsedRef := [], turnStartTimeRef := 0 \<rparr>
             else s1);
          s3 = s2\<lparr> sink := resetSessionId (sink s2) \<rparr>
      in s3\<lparr> sources := {}, nextStartTime := 0,
            outputAudioContext := (if context_open (outputAudioContext s3) then None
                                    else outputAudioContext s3),
            audioContext := (if context_open (audioContext s3) then None else audioContext s3),
            sessionRef := None, sessionPromiseRef := None, scriptProcessorRef := False,
            streamRef := False, isRecording := False, statusMessage := status_idle \<rparr>)"

section \<open>Connecting and reconnecting (\<open>connectSession\<close>, \<open>onerror\<close>, \<open>onclose\<close>)\<close>

text \<open>The status shown for an error.\<close>

definition getErrorMessage :: "js_error \<Rightarrow> string" where
  "getErrorMessage err =
     (let msg = toLowerCase (message err) in
      if str_includes msg ''api key'' \<or> str_includes msg ''unauthorized'' then status_auth
      else if str_includes msg ''quota'' then status_quota
      else if str_includes msg ''network'' \<or> str_includes msg ''fetch'' then status_network
      else status_failed)"

text \<open>\<open>abortControllerRef.current = new AbortController()\<close>\<close>

definition new_controller :: "abort_state \<Rightarrow> abort_state" where
  "new_controller a =
     a\<lparr> signals := signals a @ [False], abortControllerRef := Some (length (signals a)) \<rparr>"

text \<open>The callback \<open>onopen\<close> of the connection.\<close>

definition onopen :: "app \<Rightarrow> app" where
  "onopen s = s\<lparr> isRecording := True, statusMessage := status_listening,
                 scriptProcessorRef := True \<rparr>"

text \<open>The \<open>catch\<close> block of \<open>connectSession\<close>.\<close>

definition connect_failed :: "js_error \<Rightarrow> app \<Rightarrow> app" where
  "connect_failed err s =
     s\<lparr> streamRef := False, audioContext := None, outputAudioContext := None,
        statusMessage := (if message err = ''Connection cancelled'' then status_idle
                          else getErrorMessage err) \<rparr>"

text \<open>
  How the two retried operations of a connection attempt go: the microphone request and
  the opening of the live connection, whose value is the handle of the session.
\<close>

record connect_env =
  microphone :: "(app, unit) attempt_env"
  connection :: "(app, nat) attempt_env"

text \<open>
  \<open>connectSession\<close>: nothing when a session is there; otherwise the counter of reconnections
  is reset, a new abort controller is installed, the microphone is requested with up to two
  attempts and the connection is opened with up to three, each through \<open>withRetry\<close>. A denied
  microphone is reported by its own message.
\<close>

definition connectSession :: "connect_env \<Rightarrow> app \<Rightarrow> app" where
  "connectSession env s =
     (if sessionRef s \<noteq> None then s
      else
        (let s1 = s\<lparr> reconnectAttemptsRef := 0, abort := new_controller (abort s),
                     statusMessage := status_connecting \<rparr>
         in case withRetry abort (microphone env)
                 \<lparr> maxAttempts = Some 2,
                   onRetry = Some (\<lambda>attempt t. t\<lparr> statusMessage := status_microphone \<rparr>) \<rparr> s1 of
              (Inl err, s2, tr) \<Rightarrow>
                connect_failed
                  (if err_name err = ''NotAllowedError'' \<or> err_name err = ''PermissionDeniedError''
                   then new_Error msg_microphone_denied else err) s2
            | (Inr stream, s2, tr) \<Rightarrow>
                (let s3 = s2\<lparr> streamRef := True, audioContext := Some Running,
                              outputAudioContext := Some Running \<rparr>
                 in case withRetry abort (connection env)
                         \<lparr> maxAttempts = Some 3,
                           onRetry = Some (\<lambda>attempt t. t\<lparr> statusMessage :=
                             status_retry_prefix @ show_nat attempt @ ''/3)...'' \<rparr>) \<rparr> s3 of
                      (Inl err, s4, tr) \<Rightarrow> connect_failed err s4
                    | (Inr session, s4, tr) \<Rightarrow>
                        s4\<lparr> sessionPromiseRef := Some session, sessionRef := Some session \<rparr>)))"

text \<open>
  \<open>onerror\<close>: below the limit it counts the attempt and sets a timer of one second whose
  callback stops the session and connects again; at the limit it sets the failure status and
  stops the session.
\<close>

definition onerror :: "render \<Rightarrow> sink_env \<Rightarrow> app \<Rightarrow> app" where
  "onerror cap e s =
     (if reconnectAttemptsRef s < maxReconnectAttempts then
        s\<lparr> reconnectAttemptsRef := reconnectAttemptsRef s + 1,
           statusMessage := status_reconnecting, timers := timers s @ [Reconnect] \<rparr>
      else stopSession cap e (s\<lparr> statusMessage := status_failed \<rparr>))"

text \<open>\<open>onclose\<close>, with \<open>isRecording\<close> as the closure holds it.\<close>

definition onclose :: "render \<Rightarrow> sink_env \<Rightarrow> app \<Rightarrow> app" where
  "onclose cap e s =
     (if maxReconnectAttempts \<le> reconnectAttemptsRef s \<or> \<not> r_isRecording cap
      then stopSession cap e s else s)"

section \<open>Events\<close>

text \<open>
  A pending timer fires: the guard timer releases the guard, the reconnection timer runs
  \<open>stopSession(); connectSession()\<close>.
\<close>

definition fire :: "render \<Rightarrow> sink_env \<Rightarrow> connect_env \<Rightarrow> nat \<Rightarrow> app \<Rightarrow> app" where
  "fire cap e env i s =
     (if i < length (timers s) then
        (let s1 = s\<lparr> timers := take i (timers s) @ drop (Suc i) (timers s) \<rparr> in
         case timers s ! i of
           ReleaseGuard \<Rightarrow> release_guard s1
         | Reconnect \<Rightarrow> connectSession env (stopSession cap e s1))
      else s)"

text \<open>
  A connection attempt during which no other handler runs: the microphone request and the
  opening settle as given, and \<open>onopen\<close> runs when the connection opens.
\<close>

definition undisturbed :: "(nat \<Rightarrow> unit outcome) \<Rightarrow> (nat \<Rightarrow> nat outcome) \<Rightarrow> connect_env" where
  "undisturbed mic conn =
     \<lparr> microphone = \<lparr> settle = mic, while_pending = (\<lambda>k s. s), while_waiting = (\<lambda>k s. s) \<rparr>,
       connection =
         \<lparr> settle = conn,
           while_pending = (\<lambda>k s. case conn k of Resolves session \<Rightarrow> onopen s | Rejects err \<Rightarrow> s),
           while_waiting = (\<lambda>k s. s) \<rparr> \<rparr>"

text \<open>
  What happens to the component, one event at a time: a message arrives and is handled
  with no other handler in between, the search of the pending call settles, a pending timer
  fires, the transport reports an error, the connection closes, a source ends, the user
  stops or starts the session. \<open>run\<close> applies a list of events in order.
\<close>

datatype event =
    Message msg_env LiveServerMessage
  | SearchSettles search_outcome
  | TimerFires nat sink_env "nat \<Rightarrow> unit outcome" "nat \<Rightarrow> nat outcome"
  | TransportError sink_env
  | ConnectionClosed sink_env
  | SourceEnded nat
  | Stop sink_env
  | Start "nat \<Rightarrow> unit outcome" "nat \<Rightarrow> nat outcome"

definition step :: "render \<Rightarrow> event \<Rightarrow> app \<Rightarrow> app" where
  "step cap ev s =
     (case ev of
        Message e m \<Rightarrow> onmessage cap e (\<lambda>t. t) m s
      | SearchSettles outcome \<Rightarrow>
          (case pendingSearch s of [] \<Rightarrow> s | fc # fcs \<Rightarrow> handleToolCall_resume cap fc outcome s)
      | TimerFires i e mic conn \<Rightarrow> fire cap e (undisturbed mic conn) i s
      | TransportError e \<Rightarrow> onerror cap e s
      | ConnectionClosed e \<Rightarrow> onclose cap e s
      | SourceEnded i \<Rightarrow> source_ended i s
      | Stop e \<Rightarrow> stopSession cap e s
      | Start mic conn \<Rightarrow> connectSession (undisturbed mic conn) s)"

fun run :: "render \<Rightarrow> event list \<Rightarrow> app \<Rightarrow> app" where
  "run cap [] s = s"
| "run cap (ev # evs) s = run cap evs (step cap ev s)"

text \<open>The state of a freshly mounted component.\<close>

definition initial :: app where
  "initial =
     \<lparr> isRecording = False, activeProperty = None, propertyHistory = [], showGallery = False,
       showLeadForm = False, statusMessage = status_idle, transcript = [], notification = None,
       audioContext = None, outputAudioContext = None, nextStartTime = 0, sources = {},
       sessionRef = None, sessionPromiseRef = None, streamRef = False,
       scriptProcessorRef = False, currentInputTranscription = [],
       currentOutputTranscription = [], showGalleryRef = False, isProcessingRef = False,
       showLeadFormRef = False, reconnectAttemptsRef = 0, toolsUsedRef = [],
       turnStartTimeRef = 0, abort = \<lparr> signals = [], abortControllerRef = None \<rparr>,
       sink = \<lparr> inquiries = None, currentSessionId = None \<rparr>, toolResponses = [], timers = [],
       pendingSearch = [], sourcesCreated = 0 \<rparr>"

definition first_render :: render where
  "first_render = \<lparr> r_activeProperty = None, r_propertyHistory = [], r_isRecording = False \<rparr>"

section \<open>Views of the state used by the proofs\<close>

text \<open>
  The guard timers that are pending, what the dispatcher owns of the state, and the
  invariant of the guard: at most one call in progress or cooling down, and the flag held
  meanwhile.
\<close>

definition guard_timers :: "app \<Rightarrow> nat" where
  "guard_timers s = length (filter (\<lambda>t. t = ReleaseGuard) (timers s))"

definition dispatch_view :: "app \<Rightarrow> bool \<times> function_call list \<times> nat" where
  "dispatch_view s = (isProcessingRef s, pendingSearch s, guard_timers s)"

definition guarded :: "app \<Rightarrow> bool" where
  "guarded s =
     (length (pendingSearch s) + guard_timers s \<le> 1
      \<and> (isProcessingRef s \<or> length (pendingSearch s) + guard_timers s = 0))"


text \<open>A turn has text to flush when one of the two accumulated transcripts is not empty.\<close>

definition turn_open :: "app \<Rightarrow> bool" where
  "turn_open s = (currentInputTranscription s \<noteq> [] \<or> currentOutputTranscription s \<noteq> [])"

text \<open>
  Messages that carry one part only: a fragment of the input or of the output transcript,
  or the mark that the turn is complete. \<open>feed\<close> hands a list of messages to the handler in
  their order of arrival, each with what the handler reads from its surroundings.
\<close>

datatype fragment = UserSaid string | ModelSaid string

definition no_parts :: LiveServerMessage where
  "no_parts =
     \<lparr> audioData = None, interrupted = False, inputTranscription = None,
       outputTranscription = None, turnComplete = False, toolCall = [] \<rparr>"

definition fragment_message :: "fragment \<Rightarrow> LiveServerMessage" where
  "fragment_message f =
     (case f of
        UserSaid text \<Rightarrow> no_parts\<lparr> inputTranscription := Some text \<rparr>
      | ModelSaid text \<Rightarrow> no_parts\<lparr> outputTranscription := Some text \<rparr>)"

definition turn_complete_message :: LiveServerMessage where
  "turn_complete_message = no_parts\<lparr> turnComplete := True \<rparr>"

fun user_text :: "fragment list \<Rightarrow> string" where
  "user_text [] = []"
| "user_text (UserSaid text # fs) = text @ user_text fs"
| "user_text (ModelSaid text # fs) = user_text fs"

fun model_text :: "fragment list \<Rightarrow> string" where
  "model_text [] = []"
| "model_text (UserSaid text # fs) = model_text fs"
| "model_text (ModelSaid text # fs) = text @ model_text fs"

fun feed :: "render \<Rightarrow> (msg_env \<times> LiveServerMessage) list \<Rightarrow> app \<Rightarrow> app" where
  "feed cap [] s = s"
| "feed cap ((e, m) # ms) s = feed cap ms (onmessage cap e (\<lambda>t. t) m s)"

text \<open>The messages of one turn: its fragments, then the mark that the turn is complete.\<close>

definition turn_messages :: "(msg_env \<times> fragment) list \<Rightarrow> msg_env \<Rightarrow> (msg_env \<times> LiveServerMessage) list" where
  "turn_messages frs e = map (\<lambda>(e, f). (e, fragment_message f)) frs @ [(e, turn_complete_message)]"

section \<open>Concrete runs\<close>

text \<open>
  Operations for the retry executor: one that fails with a network error and then with a
  quota error, one that always fails with a network error, and one that is refused with a
  message in which the K of \<open>KEY\<close> is the Kelvin sign. An observer that notes the attempts it
  is called with.
\<close>

definition flaky_then_quota :: "('s, nat) attempt_env" where
  "flaky_then_quota =
     \<lparr> settle = (\<lambda>k. if k = 1 then Rejects (new_Error ''Network down'')
                     else Rejects (new_Error ''Quota exceeded'')),
       while_pending = (\<lambda>k a. a), while_waiting = (\<lambda>k a. a) \<rparr>"

definition always_down :: "('s, nat) attempt_env" where
  "always_down =
     \<lparr> settle = (\<lambda>k. Rejects (new_Error ''Network down'')),
       while_pending = (\<lambda>k a. a), while_waiting = (\<lambda>k a. a) \<rparr>"

definition kelvin_key :: string where
  "kelvin_key = ''API '' @ [CHR 0xE2, CHR 0x84, CHR 0xAA] @ ''EY rejected''"

definition key_rejected :: "('s, nat) attempt_env" where
  "key_rejected =
     \<lparr> settle = (\<lambda>k. Rejects (new_Error kelvin_key)),
       while_pending = (\<lambda>k a. a), while_waiting = (\<lambda>k a. a) \<rparr>"

definition noting :: "nat \<Rightarrow> abort_state \<times> nat list \<Rightarrow> abort_state \<times> nat list" where
  "noting k s = (fst s, snd s @ [k])"

definition one_controller :: abort_state where
  "one_controller = \<lparr> signals = [False], abortControllerRef = Some 0 \<rparr>"


definition quiet_clock :: sink_env where
  "quiet_clock =
     \<lparr> now = 1000, locale_now = ''now'', random_suffix = ''abc'', detectIntent = (\<lambda>m. Other),
       extractPropertyType = (\<lambda>m. None), extractLocation = (\<lambda>m. None) \<rparr>"

definition quiet :: msg_env where
  "quiet = \<lparr> clock = quiet_clock, currentTime = 0, decoded = None \<rparr>"

text \<open>A live session in the middle of playback: two sources scheduled, the cursor ahead.\<close>

definition playing :: app where
  "playing =
     initial\<lparr> isRecording := True, statusMessage := status_listening,
       audioContext := Some Running, outputAudioContext := Some Running,
       nextStartTime := 5 / 2, sources := {0, 1}, sourcesCreated := 2, sessionRef := Some 7,
       sessionPromiseRef := Some 7, streamRef := True, scriptProcessorRef := True,
       abort := \<lparr> signals = [False], abortControllerRef = Some 0 \<rparr> \<rparr>"


text \<open>Calls of the backend, a state whose guard is held, and granted, opening connections.\<close>

definition villa_search :: function_call where
  "villa_search =
     \<lparr> fc_name = ''search_property'',
       fc_args = Some \<lparr> query = Some ''villa'', index = None \<rparr>, fc_id = ''call-1'' \<rparr>"

definition gallery_call :: function_call where
  "gallery_call = \<lparr> fc_name = ''open_gallery'', fc_args = None, fc_id = ''call-2'' \<rparr>"

definition busy :: app where
  "busy = playing\<lparr> isProcessingRef := True \<rparr>"

definition granted :: "nat \<Rightarrow> unit outcome" where
  "granted k = Resolves ()"

definition opens :: "nat \<Rightarrow> nat outcome" where
  "opens k = Resolves 7"

definition two_calls :: "event list" where
  "two_calls =
     [Start granted opens, Message quiet (no_parts\<lparr> toolCall := [villa_search, gallery_call] \<rparr>)]"

text \<open>A property, a render that has shown it, and the call for a previous property.\<close>

definition villa :: Property where
  "villa =
     \<lparr> prop_id = ''1'', title = ''Villa in Hittin'', price = [], prop_location = ''Riyadh'',
       description = ''Five bedrooms'', images = [], prop_type = ''villa'' \<rparr>"

definition one_shown :: render where
  "one_shown =
     \<lparr> r_activeProperty = Some villa, r_propertyHistory = [villa], r_isRecording = False \<rparr>"

definition previous_call :: "rat option \<Rightarrow> function_call" where
  "previous_call i =
     \<lparr> fc_name = ''show_previous_property'',
       fc_args = Some \<lparr> query = None, index = i \<rparr>, fc_id = ''call-3'' \<rparr>"






text \<open>One session in which a search shows the villa and the first property is asked for again.\<close>

definition previous_in_session :: "event list" where
  "previous_in_session =
     [Start granted opens,
      Message quiet (no_parts\<lparr> toolCall := [villa_search] \<rparr>),
      SearchSettles (SearchReturns [villa] None), TimerFires 0 quiet_clock granted opens,
      Message quiet (no_parts\<lparr> toolCall := [previous_call (Some 1)] \<rparr>)]"

text \<open>A call for a previous property that carries no arguments.\<close>

definition bare_previous_call :: function_call where
  "bare_previous_call =
     \<lparr> fc_name = ''show_previous_property'', fc_args = None, fc_id = ''call-4'' \<rparr>"

text \<open>A turn in three fragments.\<close>

definition villa_turn :: "(msg_env \<times> fragment) list" where
  "villa_turn = [(quiet, UserSaid ''I want''), (quiet, ModelSaid ''Sure''), (quiet, UserSaid '' a villa'')]"

text \<open>
  A connection attempt in progress, and an operation that keeps failing with a network
  error while the session is stopped during its first attempt.
\<close>

definition connecting :: app where
  "connecting =
     initial\<lparr> statusMessage := status_connecting,
       abort := \<lparr> signals = [False], abortControllerRef = Some 0 \<rparr> \<rparr>"

definition stopped_during_first_attempt :: "(app, nat) attempt_env" where
  "stopped_during_first_attempt =
     \<lparr> settle = (\<lambda>k. Rejects (new_Error ''Network down'')),
       while_pending = (\<lambda>k s. if k = 1 then stopSession first_render quiet_clock s else s),
       while_waiting = (\<lambda>k s. s) \<rparr>"

definition stopped_during_first_wait :: "(app, nat) attempt_env" where
  "stopped_during_first_wait =
     \<lparr> settle = (\<lambda>k. Rejects (new_Error ''Network down'')),
       while_pending = (\<lambda>k s. s),
       while_waiting = (\<lambda>k s. if k = 1 then stopSession first_render quiet_clock s else s) \<rparr>"

text \<open>
  Transport errors: four in a row on one connection, four that each arrive after the
  reconnection that followed the previous one, and one whose reconnection cannot open a
  connection.
\<close>

definition refuses :: "nat \<Rightarrow> nat outcome" where
  "refuses k = Rejects (new_Error ''Network down'')"

definition failed_reconnection :: "event list" where
  "failed_reconnection =
     [Start granted opens, TransportError quiet_clock, TimerFires 0 quiet_clock granted refuses]"

definition four_errors :: "event list" where
  "four_errors =
     [Start granted opens, TransportError quiet_clock, TransportError quiet_clock,
      TransportError quiet_clock, TransportError quiet_clock]"

definition four_reconnections :: "event list" where
  "four_reconnections =
     [Start granted opens,
      TransportError quiet_clock, TimerFires 0 quiet_clock granted opens,
      TransportError quiet_clock, TimerFires 0 quiet_clock granted opens,
      TransportError quiet_clock, TimerFires 0 quiet_clock granted opens,
      TransportError quiet_clock, TimerFires 0 quiet_clock granted opens]"

section \<open>Properties of the log sink\<close>

lemma slice_last_length: "length (slice_last n xs) = min n (length xs)"
  by (simp add: slice_last_def)

lemma slice_last_short: "length xs \<le> n \<Longrightarrow> slice_last n xs = xs"
  by (simp add: slice_last_def)

lemma slice_last_snoc: "0 < n \<Longrightarrow> slice_last n (xs @ [x]) = slice_last (n - 1) xs @ [x]"
  by (simp add: slice_last_def)

lemma stored_saveInquiry:
  "stored_inquiries (snd (saveInquiry e u b opts s)) =
     slice_last 200 (stored_inquiries s @ [fst (saveInquiry e u b opts s)])"
  by (simp add: saveInquiry_def stored_inquiries_def getSessionId_def Let_def
      split: option.splits prod.splits)

lemma saveInquiry_texts:
  "userMessage (fst (saveInquiry e u b opts s)) = u \<and>
   botResponse (fst (saveInquiry e u b opts s)) = b"
  by (simp add: saveInquiry_def make_log_def getSessionId_def Let_def
      split: option.splits prod.splits)

text \<open>
  Claim C10. Every call of \<open>saveInquiry\<close> appends the record it has built to the stored list
  and keeps the last 200 entries of the result: the stored list never holds more than 200
  records, the new record is its last entry, the entries before it are the most recent (at
  most 199) earlier ones in their order, and every older record is gone without any error
  being reported. A list that already held 200 or more records holds exactly 200 afterwards.
\<close>

theorem saveInquiry_keeps_last_200:
  "length (stored_inquiries (snd (saveInquiry e u b opts s))) \<le> 200
   \<and> stored_inquiries (snd (saveInquiry e u b opts s)) =
       slice_last 199 (stored_inquiries s) @ [fst (saveInquiry e u b opts s)]
   \<and> length (stored_inquiries (snd (saveInquiry e u b opts s))) =
       min 200 (length (stored_inquiries s) + 1)
   \<and> userMessage (fst (saveInquiry e u b opts s)) = u
   \<and> botResponse (fst (saveInquiry e u b opts s)) = b"
  by (simp add: stored_saveInquiry slice_last_snoc slice_last_length saveInquiry_texts)

section \<open>Properties of the retry executor\<close>

lemma invocations_simps [simp]:
  "invocations [] = []"
  "invocations (Invoke k # evs) = k # invocations evs"
  "invocations (Observe k # evs) = invocations evs"
  "invocations (Wait k d # evs) = invocations evs"
  "invocations (xs @ ys) = invocations xs @ invocations ys"
  by (simp_all add: invocations_def)

lemma invocations_observed [simp]: "invocations (observed obs k) = []"
  by (simp add: observed_def split: option.splits)

lemma Invoke_notin_observed [simp]: "Invoke k \<notin> set (observed obs j)"
  by (simp add: observed_def split: option.splits)

text \<open>One iteration of the loop, by the branch it takes.\<close>

lemma retry_loop_cases [consumes 1, case_names stop resolved fatal cancelled waited last]:
  assumes run: "retry_loop ab env m obs a le s = (r, s', tr)"
  obtains
    (stop) "\<not> (a \<le> m \<and> \<not> signal_aborted (ab s))" "tr = []"
      "r = Inl (if a \<le> m then cancelled else le)" "s' = s"
  | (resolved) v where "a \<le> m" "settle env a = Resolves v" "tr = [Invoke a]" "r = Inr v"
      "s' = while_pending env a s"
  | (fatal) err where "a \<le> m" "settle env a = Rejects err" "non_retryable err"
      "tr = [Invoke a]" "r = Inl err" "s' = while_pending env a s"
  | (cancelled) err where "a < m" "settle env a = Rejects err" "\<not> non_retryable err"
      "tr = Invoke a # observed obs a @ [Wait a (delay_of a)]" "r = Inl cancelled"
      "s' = while_waiting env a (observe obs a (while_pending env a s))"
  | (waited) err s3 rest where "a < m" "settle env a = Rejects err" "\<not> non_retryable err"
      "retry_loop ab env m obs (Suc a) err s3 = (r, s', rest)"
      "tr = Invoke a # observed obs a @ [Wait a (delay_of a)] @ rest"
      "s3 = while_waiting env a (observe obs a (while_pending env a s))"
  | (last) err s1 rest where "a = m" "settle env a = Rejects err" "\<not> non_retryable err"
      "retry_loop ab env m obs (Suc a) err s1 = (r, s', rest)" "tr = Invoke a # rest"
      "s1 = while_pending env a s"
proof (cases "a \<le> m \<and> \<not> signal_aborted (ab s)")
  case False
  then show ?thesis
    using run stop by (subst (asm) retry_loop.simps) (auto split: if_splits)
next
  case go: True
  show ?thesis
  proof (cases "settle env a")
    case (Resolves v)
    then show ?thesis
      using run go resolved by (subst (asm) retry_loop.simps) (auto simp: Let_def)
  next
    case (Rejects err)
    show ?thesis
    proof (cases "non_retryable err")
      case True
      then show ?thesis
        using run go Rejects fatal by (subst (asm) retry_loop.simps) (auto simp: Let_def)
    next
      case transient: False
      show ?thesis
      proof (cases "a < m")
        case True
        then show ?thesis
          using run go Rejects transient cancelled waited
          by (subst (asm) retry_loop.simps) (auto simp: Let_def split: if_splits prod.splits)
      next
        case False
        then show ?thesis
          using run go Rejects transient last
          by (subst (asm) retry_loop.simps) (auto simp: Let_def split: prod.splits)
      qed
    qed
  qed
qed

lemma retry_loop_past_limit:
  "m < a \<Longrightarrow> retry_loop ab env m obs a le s = (Inl le, s, [])"
  by (subst retry_loop.simps) simp

lemma retry_loop_invocations:
  "retry_loop ab env m obs a le s = (r, s', tr)
     \<Longrightarrow> \<exists>n. invocations tr = [a ..< n] \<and> n \<le> max a (Suc m)"
proof (induction "Suc m - a" arbitrary: a le s r s' tr rule: less_induct)
  case less
  from less.prems show ?case
  proof (cases rule: retry_loop_cases)
    case stop
    then show ?thesis by (intro exI [of _ a]) simp
  next
    case (resolved v)
    then show ?thesis by (intro exI [of _ "Suc a"]) (simp add: upt_rec)
  next
    case (fatal err)
    then show ?thesis by (intro exI [of _ "Suc a"]) (simp add: upt_rec)
  next
    case (cancelled err)
    then show ?thesis by (intro exI [of _ "Suc a"]) (simp add: upt_rec)
  next
    case (waited err s3 rest)
    from waited(1) have dec: "Suc m - Suc a < Suc m - a" by arith
    from less.hyps [OF dec waited(4)] waited(1)
    obtain n where n: "invocations rest = [Suc a ..< n]" "n \<le> Suc m"
      by (auto simp: max_def split: if_splits)
    show ?thesis
    proof (cases "Suc a \<le> n")
      case True
      then show ?thesis using n waited
        by (intro exI [of _ n]) (simp add: upt_rec [of a n])
    next
      case False
      then show ?thesis using n waited
        by (intro exI [of _ "Suc a"]) (simp add: upt_rec [of a "Suc a"])
    qed
  next
    case (last err s1 rest)
    then show ?thesis
      by (intro exI [of _ "Suc a"]) (simp add: retry_loop_past_limit upt_rec)
  qed
qed

lemma retry_loop_invoke_range:
  "retry_loop ab env m obs a le s = (r, s', tr) \<Longrightarrow> Invoke k \<in> set tr \<Longrightarrow> a \<le> k \<and> k \<le> m"
proof (induction "Suc m - a" arbitrary: a le s r s' tr rule: less_induct)
  case less
  from less.prems(1) show ?case
  proof (cases rule: retry_loop_cases)
    case (waited err s3 rest)
    from waited(1) have dec: "Suc m - Suc a < Suc m - a" by arith
    from less.prems(2) waited have "k = a \<or> Invoke k \<in> set rest" by auto
    then show ?thesis
      using less.hyps [OF dec waited(4)] waited(1) by auto
  next
    case (last err s1 rest)
    then show ?thesis using less.prems(2) by (auto simp: retry_loop_past_limit)
  qed (use less.prems(2) in auto)
qed

lemma retry_loop_fatal:
  "retry_loop ab env m obs a le s = (r, s', tr) \<Longrightarrow> Invoke k \<in> set tr
     \<Longrightarrow> settle env k = Rejects err \<Longrightarrow> non_retryable err
     \<Longrightarrow> r = Inl err \<and> (\<exists>before. tr = before @ [Invoke k])"
proof (induction "Suc m - a" arbitrary: a le s r s' tr rule: less_induct)
  case less
  from less.prems(1) show ?case
  proof (cases rule: retry_loop_cases)
    case (waited e s3 rest)
    from waited(1) have dec: "Suc m - Suc a < Suc m - a" by arith
    from less.prems waited have "Invoke k \<in> set rest" by auto
    from less.hyps [OF dec waited(4) this less.prems(3,4)]
    obtain before where "r = Inl err" "rest = before @ [Invoke k]" by auto
    then show ?thesis
      unfolding waited(5) by (auto intro: exI [of _ "Invoke a # observed obs a @ Wait a (delay_of a) # before"])
  next
    case (last e s1 rest)
    then show ?thesis using less.prems by (auto simp: retry_loop_past_limit)
  qed (use less.prems in auto)
qed

lemma retry_loop_transient:
  "retry_loop ab env m obs a le s = (r, s', tr) \<Longrightarrow> Invoke k \<in> set tr
     \<Longrightarrow> settle env k = Rejects err \<Longrightarrow> \<not> non_retryable err \<Longrightarrow> k < m
     \<Longrightarrow> \<exists>before after. tr = before @ Invoke k # observed obs k @ Wait k (delay_of k) # after"
proof (induction "Suc m - a" arbitrary: a le s r s' tr rule: less_induct)
  case less
  from less.prems(1) show ?case
  proof (cases rule: retry_loop_cases)
    case (cancelled e)
    then show ?thesis using less.prems by (auto intro: exI [of _ "[]"])
  next
    case (waited e s3 rest)
    show ?thesis
    proof (cases "k = a")
      case True
      then show ?thesis
        unfolding waited(5) by (intro exI [of _ "[]"] exI [of _ rest]) simp
    next
      case False
      from waited(1) have dec: "Suc m - Suc a < Suc m - a" by arith
      from False less.prems waited have "Invoke k \<in> set rest" by auto
      from less.hyps [OF dec waited(4) this less.prems(3,4,5)]
      obtain before after
        where "rest = before @ Invoke k # observed obs k @ Wait k (delay_of k) # after"
        by auto
      then show ?thesis
        unfolding waited(5)
        by (intro exI [of _ "Invoke a # observed obs a @ Wait a (delay_of a) # before"]
            exI [of _ after]) simp
    qed
  next
    case (last e s1 rest)
    then show ?thesis using less.prems by (auto simp: retry_loop_past_limit)
  qed (use less.prems in auto)
qed

lemma retry_loop_final:
  "retry_loop ab env m obs a le s = (r, s', tr) \<Longrightarrow> Invoke m \<in> set tr
     \<Longrightarrow> settle env m = Rejects err \<Longrightarrow> r = Inl err \<and> (\<exists>before. tr = before @ [Invoke m])"
proof (induction "Suc m - a" arbitrary: a le s r s' tr rule: less_induct)
  case less
  from less.prems(1) show ?case
  proof (cases rule: retry_loop_cases)
    case (waited e s3 rest)
    from waited(1) have dec: "Suc m - Suc a < Suc m - a" by arith
    from less.prems waited have "Invoke m \<in> set rest" by auto
    from less.hyps [OF dec waited(4) this less.prems(3)]
    obtain before where "r = Inl err" "rest = before @ [Invoke m]" by auto
    then show ?thesis
      unfolding waited(5)
      by (auto intro: exI [of _ "Invoke a # observed obs a @ Wait a (delay_of a) # before"])
  next
    case (last e s1 rest)
    then show ?thesis using less.prems by (auto simp: retry_loop_past_limit)
  qed (use less.prems in auto)
qed

text \<open>
  The state after a run is the state before it, taken through the events of the run in
  order: what other handlers do during an invocation, the callback at its call, what other
  handlers do during a wait.
\<close>

lemma foldl_observed:
  "foldl (\<lambda>t ev. case ev of Invoke k \<Rightarrow> p k t | Observe k \<Rightarrow> observe obs k t | Wait k d \<Rightarrow> w k t)
     t (observed obs a) = observe obs a t"
  by (simp add: observed_def observe_def split: option.splits)

lemma retry_loop_state:
  "retry_loop ab env m obs a le s = (r, s', tr)
     \<Longrightarrow> s' = foldl (\<lambda>t ev. case ev of
                        Invoke k \<Rightarrow> while_pending env k t
                      | Observe k \<Rightarrow> observe obs k t
                      | Wait k d \<Rightarrow> while_waiting env k t) s tr"
proof (induction "Suc m - a" arbitrary: a le s r s' tr rule: less_induct)
  case less
  from less.prems show ?case
  proof (cases rule: retry_loop_cases)
    case (cancelled err)
    then show ?thesis by (simp add: foldl_observed)
  next
    case (waited err s3 rest)
    from waited(1) have dec: "Suc m - Suc a < Suc m - a" by arith
    from less.hyps [OF dec waited(4)] waited(5,6)
    show ?thesis by (simp add: foldl_observed)
  next
    case (last err s1 rest)
    then show ?thesis by (simp add: retry_loop_past_limit)
  qed simp_all
qed

lemma delay_of_cases:
  "delay_of k =
     (if k = 1 then Some 500 else if k = 2 then Some 1000 else if k = 3 then Some 2000
      else None)"
proof -
  consider "k = 0" | "k = 1" | "k = 2" | "k = 3" | "3 < k" by arith
  then show ?thesis
    by cases (simp_all add: delay_of_def delays_def)
qed

lemma non_retryable_words:
  "non_retryable err =
     (\<exists>word \<in> set [''api key'', ''quota'', ''unauthorized'', ''forbidden'', ''invalid''].
        str_includes (toLowerCase (message err)) word)"
  by (simp add: non_retryable_def Let_def)

lemma withRetry_loop:
  "withRetry ab env options s =
     retry_loop ab env (attempt_limit options) (onRetry options) 1 (new_Error ''Unknown error'') s"
  by (simp add: withRetry_def)

text \<open>
  Claim C1. Let \<open>limit\<close> be the \<open>maxAttempts\<close> that the caller passes, or 3 when the caller
  passes none. Whatever the operation does and whatever other handlers do meanwhile, a run
  of \<open>withRetry\<close> invokes the operation for the attempts \<open>1, \<dots>, n\<close> with \<open>n \<le> limit\<close>, each
  once. An attempt that fails with an error whose lowered message contains \<open>api key\<close>,
  \<open>quota\<close>, \<open>unauthorized\<close>, \<open>forbidden\<close> or \<open>invalid\<close> is the last event of the run, with
  no wait and no further attempt, and its error is the result. An attempt \<open>k < limit\<close> that
  fails with any other error is followed by the call of the observer, when there is one, and
  then by the wait, of 500, 1000 and 2000 milliseconds for the attempts 1, 2 and 3 and with
  an undefined delay from the fourth on. The observer is really run: the state after the run is
  the state before it taken through the events in order, with the callback applied to the
  attempt at each of its calls. When the attempt numbered \<open>limit\<close> fails, it is the last
  event and its error is the result.
\<close>

theorem withRetry_bounded_attempts:
  assumes run: "withRetry ab env options s = (r, s', tr)"
    and limit: "limit = (case maxAttempts options of None \<Rightarrow> 3 | Some n \<Rightarrow> n)"
  shows "(\<exists>n. n \<le> limit \<and> invocations tr = [1 ..< Suc n])
       \<and> (\<forall>k err. Invoke k \<in> set tr \<and> settle env k = Rejects err
              \<and> (\<exists>word \<in> set [''api key'', ''quota'', ''unauthorized'', ''forbidden'', ''invalid''].
                    str_includes (toLowerCase (message err)) word)
            \<longrightarrow> r = Inl err \<and> (\<exists>before. tr = before @ [Invoke k]))
       \<and> (\<forall>k err. Invoke k \<in> set tr \<and> settle env k = Rejects err
              \<and> \<not> (\<exists>word \<in> set [''api key'', ''quota'', ''unauthorized'', ''forbidden'', ''invalid''].
                      str_includes (toLowerCase (message err)) word)
              \<and> k < limit
            \<longrightarrow> (\<exists>before after.
                  tr = before @ Invoke k
                         # (case onRetry options of None \<Rightarrow> [] | Some f \<Rightarrow> [Observe k])
                         @ Wait k (if k = 1 then Some 500 else if k = 2 then Some 1000
                                   else if k = 3 then Some 2000 else None) # after))
       \<and> s' = foldl (\<lambda>t ev. case ev of
                        Invoke k \<Rightarrow> while_pending env k t
                      | Observe k \<Rightarrow> (case onRetry options of None \<Rightarrow> t | Some f \<Rightarrow> f k t)
                      | Wait k d \<Rightarrow> while_waiting env k t) s tr
       \<and> (\<forall>err. Invoke limit \<in> set tr \<and> settle env limit = Rejects err
            \<longrightarrow> r = Inl err \<and> (\<exists>before. tr = before @ [Invoke limit]))"
proof -
  from limit have m: "attempt_limit options = limit"
    by (simp add: attempt_limit_def)
  from run have loop:
    "retry_loop ab env limit (onRetry options) 1 (new_Error ''Unknown error'') s = (r, s', tr)"
    by (simp add: withRetry_loop m)
  from retry_loop_invocations [OF loop]
  obtain n where n: "invocations tr = [1 ..< n]" "n \<le> Suc limit"
    by (auto simp: max_def split: if_splits)
  have count: "\<exists>n. n \<le> limit \<and> invocations tr = [1 ..< Suc n]"
  proof (cases n)
    case 0
    then show ?thesis using n by (intro exI [of _ 0]) simp
  next
    case (Suc j)
    then show ?thesis using n by (intro exI [of _ j]) simp
  qed
  have fatal: "r = Inl err \<and> (\<exists>before. tr = before @ [Invoke k])"
    if "Invoke k \<in> set tr" "settle env k = Rejects err" "non_retryable err" for k err
    using retry_loop_fatal [OF loop that] .
  have transient: "\<exists>before after.
      tr = before @ Invoke k # (case onRetry options of None \<Rightarrow> [] | Some f \<Rightarrow> [Observe k])
             @ Wait k (if k = 1 then Some 500 else if k = 2 then Some 1000
                       else if k = 3 then Some 2000 else None) # after"
    if "Invoke k \<in> set tr" "settle env k = Rejects err" "\<not> non_retryable err" "k < limit"
    for k err
    using retry_loop_transient [OF loop that] by (simp add: observed_def delay_of_cases)
  have state: "s' = foldl (\<lambda>t ev. case ev of
                        Invoke k \<Rightarrow> while_pending env k t
                      | Observe k \<Rightarrow> (case onRetry options of None \<Rightarrow> t | Some f \<Rightarrow> f k t)
                      | Wait k d \<Rightarrow> while_waiting env k t) s tr"
    using retry_loop_state [OF loop] unfolding observe_def .
  have final: "r = Inl err \<and> (\<exists>before. tr = before @ [Invoke limit])"
    if "Invoke limit \<in> set tr" "settle env limit = Rejects err" for err
    using retry_loop_final [OF loop that] .
  show ?thesis
    unfolding non_retryable_words [symmetric]
    using count fatal transient state final by blast
qed

lemmas retry_eval =
  withRetry_def attempt_limit_def retry_loop.simps signal_aborted_def aborted_at_def listener_fired_def
  non_retryable_def lower_char_def new_Error_def observe_def observed_def
  delay_of_def delays_def cancelled_def Let_def

theorem withRetry_bounded_attempts_witness:
  "withRetry fst flaky_then_quota \<lparr> maxAttempts = None, onRetry = Some noting \<rparr>
       (one_controller, []) =
     (Inl (new_Error ''Quota exceeded''), (one_controller, [1]),
      [Invoke 1, Observe 1, Wait 1 (Some 500), Invoke 2])
   \<and> (3::nat) = (case maxAttempts \<lparr> maxAttempts = None, onRetry = Some noting \<rparr> of
                  None \<Rightarrow> 3 | Some n \<Rightarrow> n)
   \<and> str_includes (toLowerCase ''Quota exceeded'') ''quota''
   \<and> (\<exists>before. [Invoke 1, Observe 1, Wait 1 (Some 500), Invoke 2] = before @ [Invoke 2])
   \<and> (\<exists>before after. [Invoke 1, Observe 1, Wait 1 (Some 500), Invoke 2] =
         before @ Invoke 1 # [Observe 1] @ Wait 1 (Some 500) # after)
   \<and> withRetry fst always_down \<lparr> maxAttempts = Some 3, onRetry = Some noting \<rparr>
         (one_controller, []) =
       (Inl (new_Error ''Network down''), (one_controller, [1, 2]),
        [Invoke 1, Observe 1, Wait 1 (Some 500), Invoke 2, Observe 2, Wait 2 (Some 1000),
         Invoke 3])
   \<and> withRetry fst key_rejected \<lparr> maxAttempts = Some 3, onRetry = Some noting \<rparr>
         (one_controller, []) =
       (Inl (new_Error kelvin_key), (one_controller, []), [Invoke 1])"
proof -
  let ?tr = "[Invoke 1, Observe 1, Wait 1 (Some 500), Invoke 2]"
  let ?s = "(one_controller, [] :: nat list)"
  have limit: "(3::nat) = (case maxAttempts \<lparr> maxAttempts = None, onRetry = Some noting \<rparr> of
                  None \<Rightarrow> 3 | Some n \<Rightarrow> n)"
    and three: "(3::nat) = (case maxAttempts \<lparr> maxAttempts = Some 3, onRetry = Some noting \<rparr> of
                  None \<Rightarrow> 3 | Some n \<Rightarrow> n)"
    by simp_all
  have quota: "str_includes (toLowerCase ''Quota exceeded'') ''quota''"
    and network: "\<not> (\<exists>word \<in> set [''api key'', ''quota'', ''unauthorized'', ''forbidden'',
        ''invalid'']. str_includes (toLowerCase ''Network down'') word)"
    and kelvin: "str_includes (toLowerCase kelvin_key) ''api key''"
    by (simp_all add: lower_char_def kelvin_key_def)
  have settles: "settle flaky_then_quota 1 = Rejects (new_Error ''Network down'')"
    "settle flaky_then_quota 2 = Rejects (new_Error ''Quota exceeded'')"
    "settle key_rejected 1 = Rejects (new_Error kelvin_key)"
    by (simp_all add: flaky_then_quota_def key_rejected_def)
  have message: "message (new_Error m) = m" for m
    by (simp add: new_Error_def)
  have flaky: "withRetry fst flaky_then_quota \<lparr> maxAttempts = None, onRetry = Some noting \<rparr> ?s =
      (Inl (new_Error ''Quota exceeded''), (one_controller, [1]), ?tr)"
    by (simp add: retry_eval flaky_then_quota_def one_controller_def noting_def)
  have down: "withRetry fst always_down \<lparr> maxAttempts = Some 3, onRetry = Some noting \<rparr> ?s =
      (Inl (new_Error ''Network down''), (one_controller, [1, 2]),
       [Invoke 1, Observe 1, Wait 1 (Some 500), Invoke 2, Observe 2, Wait 2 (Some 1000),
        Invoke 3])"
    by (simp add: retry_eval always_down_def one_controller_def noting_def)
  have refused: "withRetry fst key_rejected \<lparr> maxAttempts = Some 3, onRetry = Some noting \<rparr> ?s =
      (Inl (new_Error kelvin_key), (one_controller, []), [Invoke 1])"
    by (simp add: retry_eval key_rejected_def one_controller_def noting_def kelvin_key_def)
  note fatal = withRetry_bounded_attempts [OF flaky limit, THEN conjunct2, THEN conjunct1,
      rule_format, of 2 "new_Error ''Quota exceeded''"]
  note transient = withRetry_bounded_attempts [OF flaky limit, THEN conjunct2, THEN conjunct2,
      THEN conjunct1, rule_format, of 1 "new_Error ''Network down''"]
  note key = withRetry_bounded_attempts [OF refused three, THEN conjunct2, THEN conjunct1,
      rule_format, of 1 "new_Error kelvin_key"]
  from fatal settles(2) quota
  have ends: "\<exists>before. ?tr = before @ [Invoke 2]"
    by (simp add: message)
  from transient settles(1) network
  have waits: "\<exists>before after. ?tr = before @ Invoke 1 # [Observe 1] @ Wait 1 (Some 500) # after"
    by (simp add: message)
  from key settles(3) kelvin
  have stops: "\<exists>before. [Invoke 1] = before @ [Invoke (1::nat)]"
    by (simp add: message)
  show ?thesis
    using flaky down refused limit quota ends waits stops
    by simp
qed

section \<open>Properties of the message handler\<close>

text \<open>The definitions that evaluate a concrete run.\<close>

lemmas dispatcher_defs =
  handleToolCall_begin_def accept_call_def sync_tool_def show_previous_property_def open_gallery_def
  finish_call_def handleCloseGallery_def Let_def

lemmas app_eval =
  step_def onmessage_def onmessage_rest_def awaits_decoder_def context_open_def
  dispatcher_defs handleToolCall_def handleToolCall_resume_def
  search_property_def on_interrupted_def on_inputTranscription_def on_outputTranscription_def
  on_turnComplete_def log_turn_def stopSession_def abort_current_def connectSession_def
  connect_failed_def new_controller_def onopen_def onerror_def onclose_def fire_def
  undisturbed_def release_guard_def maxReconnectAttempts_def schedule_chunk_def
  source_ended_def initial_def


lemma handleToolCall_begin_playback:
  "sources (fst (handleToolCall_begin cap fc s)) = sources s
   \<and> nextStartTime (fst (handleToolCall_begin cap fc s)) = nextStartTime s"
  by (simp add: dispatcher_defs split: option.splits prod.splits)

lemma start_calls_playback:
  "sources (start_calls cap fcs s) = sources s
   \<and> nextStartTime (start_calls cap fcs s) = nextStartTime s"
  by (induction fcs arbitrary: s) (simp_all add: handleToolCall_begin_playback)

lemma log_turn_playback:
  "sources (log_turn cap e u b st s) = sources s
   \<and> nextStartTime (log_turn cap e u b st s) = nextStartTime s"
  by (simp add: log_turn_def)

lemma on_interrupted_playback:
  "sources (on_interrupted cap e s) = {} \<and> nextStartTime (on_interrupted cap e s) = 0"
  by (simp add: on_interrupted_def Let_def)

lemma on_turnComplete_playback:
  "sources (on_turnComplete cap e s) = sources s
   \<and> nextStartTime (on_turnComplete cap e s) = nextStartTime s"
  by (simp add: on_turnComplete_def Let_def log_turn_playback)

lemma onmessage_rest_interrupted:
  "interrupted m \<Longrightarrow>
     sources (onmessage_rest cap e m s) = {} \<and> nextStartTime (onmessage_rest cap e m s) = 0"
  by (simp add: onmessage_rest_def Let_def start_calls_playback on_turnComplete_playback
      on_inputTranscription_def on_outputTranscription_def on_interrupted_playback
      split: option.splits)

text \<open>
  Claim C7. Whatever the set of active sources and the cursor are when an interruption
  arrives, the interruption block leaves the set of active sources empty and the cursor at
  zero, and so does the whole message handler when it returns from a message marked as
  interrupted on a live session: at once when the message does not wait for the decoder,
  and after the wait when the audio of the message was decoded and the output context is
  still open. Nothing later in the handler (transcripts, turn completion, tool calls)
  schedules a source or moves the cursor.
\<close>

theorem interruption_clears_playback:
  "sources (on_interrupted cap e s) = {} \<and> nextStartTime (on_interrupted cap e s) = 0
   \<and> (interrupted m \<and> sessionRef s \<noteq> None \<and> \<not> awaits_decoder m s
        \<longrightarrow> sources (onmessage cap env between m s) = {}
          \<and> nextStartTime (onmessage cap env between m s) = 0)
   \<and> (interrupted m \<and> sessionRef s \<noteq> None \<and> awaits_decoder m s \<and> decoded env \<noteq> None
        \<and> context_open (outputAudioContext
              (between (s\<lparr> nextStartTime := max (nextStartTime s) (currentTime env) \<rparr>)))
        \<longrightarrow> sources (onmessage cap env between m s) = {}
          \<and> nextStartTime (onmessage cap env between m s) = 0)"
  by (auto simp: on_interrupted_playback onmessage_def onmessage_rest_interrupted Let_def
      split: option.splits)

theorem interruption_clears_playback_witness:
  "interrupted (no_parts\<lparr> interrupted := True \<rparr>)
   \<and> sessionRef playing \<noteq> None
   \<and> \<not> awaits_decoder (no_parts\<lparr> interrupted := True \<rparr>) playing
   \<and> sources playing = {0, 1} \<and> nextStartTime playing = 5 / 2
   \<and> sources (onmessage first_render quiet (\<lambda>t. t) (no_parts\<lparr> interrupted := True \<rparr>) playing) = {}
   \<and> nextStartTime (onmessage first_render quiet (\<lambda>t. t) (no_parts\<lparr> interrupted := True \<rparr>) playing) = 0
   \<and> awaits_decoder (no_parts\<lparr> interrupted := True, audioData := Some ''AAAA'' \<rparr>) playing
   \<and> sources (onmessage first_render (quiet\<lparr> decoded := Some (1 / 2) \<rparr>) (\<lambda>t. t)
         (no_parts\<lparr> interrupted := True, audioData := Some ''AAAA'' \<rparr>) playing) = {}
   \<and> nextStartTime (onmessage first_render (quiet\<lparr> decoded := Some (1 / 2) \<rparr>) (\<lambda>t. t)
         (no_parts\<lparr> interrupted := True, audioData := Some ''AAAA'' \<rparr>) playing) = 0"
  using interruption_clears_playback [of first_render quiet_clock playing
      "no_parts\<lparr> interrupted := True \<rparr>" quiet "\<lambda>t. t"]
    interruption_clears_playback [of first_render quiet_clock playing
      "no_parts\<lparr> interrupted := True, audioData := Some ''AAAA'' \<rparr>"
      "quiet\<lparr> decoded := Some (1 / 2) \<rparr>" "\<lambda>t. t"]
  by (simp add: no_parts_def playing_def initial_def awaits_decoder_def context_open_def
      quiet_def)

section \<open>Properties of the dispatcher\<close>

lemma retry_loop_preserves:
  assumes pend: "\<And>k t. P t \<Longrightarrow> P (while_pending env k t)"
    and wait: "\<And>k t. P t \<Longrightarrow> P (while_waiting env k t)"
    and obs: "\<And>k t. P t \<Longrightarrow> P (observe obs k t)"
  shows "retry_loop ab env m obs a le s = (r, s', tr) \<Longrightarrow> P s \<Longrightarrow> P s'"
proof (induction "Suc m - a" arbitrary: a le s r s' tr rule: less_induct)
  case less
  from less.prems(1) show ?case
  proof (cases rule: retry_loop_cases)
    case (waited err s3 rest)
    from waited(1) have dec: "Suc m - Suc a < Suc m - a" by arith
    have "P s3" unfolding waited(6) by (intro wait obs pend less.prems(2))
    from less.hyps [OF dec waited(4) this] show ?thesis .
  next
    case (last err s1 rest)
    from last(1,4) have "s' = s1" by (simp add: retry_loop_past_limit)
    then show ?thesis unfolding last(6) by (simp add: pend less.prems(2))
  qed (use less.prems(2) pend wait obs in auto)
qed

lemma withRetry_preserves:
  assumes "\<And>k t. P t \<Longrightarrow> P (while_pending env k t)"
    and "\<And>k t. P t \<Longrightarrow> P (while_waiting env k t)"
    and "\<And>k t. P t \<Longrightarrow> P (observe (onRetry options) k t)"
    and "withRetry ab env options s = (r, s', tr)" and "P s"
  shows "P s'"
  using retry_loop_preserves [where P = P, OF assms(1-3)] assms(4,5)
  unfolding withRetry_def by blast

lemma dispatch_view_stopSession: "dispatch_view (stopSession cap e s) = dispatch_view s"
  by (simp add: dispatch_view_def guard_timers_def stopSession_def log_turn_def Let_def)

lemma dispatch_view_onopen: "dispatch_view (onopen s) = dispatch_view s"
  by (simp add: dispatch_view_def guard_timers_def onopen_def)

lemma dispatch_view_connect_failed: "dispatch_view (connect_failed err s) = dispatch_view s"
  by (simp add: dispatch_view_def guard_timers_def connect_failed_def)

lemma dispatch_view_connectSession:
  "dispatch_view (connectSession (undisturbed mic conn) s) = dispatch_view s"
proof (cases "sessionRef s")
  case (Some h)
  then show ?thesis by (simp add: connectSession_def)
next
  case None
  define v where "v = dispatch_view s"
  define P where "P = (\<lambda>t. dispatch_view t = v)"
  define s1 where "s1 = s\<lparr> reconnectAttemptsRef := 0, abort := new_controller (abort s),
                     statusMessage := status_connecting \<rparr>"
  define mic_options :: "app retry_options" where
    "mic_options = \<lparr> maxAttempts = Some 2,
                   onRetry = Some (\<lambda>attempt t. t\<lparr> statusMessage := status_microphone \<rparr>) \<rparr>"
  define conn_options :: "app retry_options" where
    "conn_options = \<lparr> maxAttempts = Some 3,
                           onRetry = Some (\<lambda>attempt t. t\<lparr> statusMessage :=
                             status_retry_prefix @ show_nat attempt @ ''/3)...'' \<rparr>) \<rparr>"
  have P1: "P s1"
    by (simp add: P_def v_def s1_def dispatch_view_def guard_timers_def)
  obtain r2 s2 tr2 where mic:
    "withRetry abort (microphone (undisturbed mic conn)) mic_options s1 = (r2, s2, tr2)"
    by (metis prod_cases3)
  have P2: "P s2"
    by (rule withRetry_preserves [where P = P, OF _ _ _ mic P1])
      (simp_all add: undisturbed_def P_def observe_def mic_options_def dispatch_view_def
        guard_timers_def)
  show ?thesis
  proof (cases r2)
    case (Inl err)
    then show ?thesis
      using None mic P2
      by (simp add: connectSession_def s1_def [symmetric] mic_options_def [symmetric] Let_def
          dispatch_view_connect_failed P_def v_def)
  next
    case (Inr stream)
    define s3 where "s3 = s2\<lparr> streamRef := True, audioContext := Some Running,
                              outputAudioContext := Some Running \<rparr>"
    have P3: "P s3"
      using P2 by (simp add: P_def s3_def dispatch_view_def guard_timers_def)
    obtain r4 s4 tr4 where conn:
      "withRetry abort (connection (undisturbed mic conn)) conn_options s3 = (r4, s4, tr4)"
      by (metis prod_cases3)
    have P4: "P s4"
      by (rule withRetry_preserves [where P = P, OF _ _ _ conn P3])
        (auto simp: undisturbed_def P_def observe_def conn_options_def dispatch_view_def
          guard_timers_def onopen_def split: outcome.splits)
    show ?thesis
      using None mic Inr conn P4
      by (cases r4)
        (simp_all add: connectSession_def s1_def [symmetric] mic_options_def [symmetric]
          conn_options_def [symmetric] s3_def [symmetric] Let_def dispatch_view_connect_failed
          P_def v_def, simp add: dispatch_view_def guard_timers_def)
  qed
qed

lemma guarded_view: "dispatch_view t = dispatch_view s \<Longrightarrow> guarded t = guarded s"
  by (simp add: guarded_def dispatch_view_def)

lemma handleToolCall_begin_dropped:
  "isProcessingRef s \<Longrightarrow> handleToolCall_begin cap fc s = (s, Dropped)"
  by (simp add: handleToolCall_begin_def)

lemma handleToolCall_dropped:
  "isProcessingRef s \<Longrightarrow> handleToolCall cap between outcome fc s = s"
  by (simp add: handleToolCall_def handleToolCall_begin_dropped)

lemma dispatch_view_sync_tool: "dispatch_view (fst (sync_tool cap fc s)) = dispatch_view s"
  by (simp add: dispatch_view_def guard_timers_def sync_tool_def show_previous_property_def
      open_gallery_def handleCloseGallery_def Let_def split: option.splits)

lemma dispatch_view_finish_call:
  "dispatch_view (finish_call fc c s) =
     (isProcessingRef s, pendingSearch s, Suc (guard_timers s))"
  by (simp add: dispatch_view_def guard_timers_def finish_call_def Let_def
      split: completion.splits option.splits)

lemma guarded_finish_call:
  "isProcessingRef s \<Longrightarrow> pendingSearch s = [] \<Longrightarrow> guard_timers s = 0
     \<Longrightarrow> guarded (finish_call fc c s)"
  using dispatch_view_finish_call [of fc c s]
  by (simp add: guarded_def dispatch_view_def)

lemma accept_call_fields:
  "isProcessingRef (accept_call fc s)"
  "pendingSearch (accept_call fc s) = pendingSearch s"
  "timers (accept_call fc s) = timers s"
  "toolResponses (accept_call fc s) = toolResponses s"
  "sessionPromiseRef (accept_call fc s) = sessionPromiseRef s"
  "activeProperty (accept_call fc s) = activeProperty s"
  "showGallery (accept_call fc s) = showGallery s"
  "showGalleryRef (accept_call fc s) = showGalleryRef s"
  "toolsUsedRef (accept_call fc s) = toolsUsedRef s @ [fc_name fc]"
  by (simp_all add: accept_call_def Let_def)

lemma guarded_begin: "guarded s \<Longrightarrow> guarded (fst (handleToolCall_begin cap fc s))"
proof (cases "isProcessingRef s")
  case True
  assume "guarded s"
  with True show ?thesis by (simp add: handleToolCall_begin_def)
next
  case False
  assume g: "guarded s"
  define s2 where "s2 = accept_call fc s"
  from g False have idle: "pendingSearch s = []" "guard_timers s = 0"
    by (auto simp: guarded_def)
  then have s2: "isProcessingRef s2" "pendingSearch s2 = []" "guard_timers s2 = 0"
    by (simp_all add: s2_def accept_call_fields guard_timers_def)
  show ?thesis
  proof (cases "fc_name fc = ''search_property''")
    case True
    show ?thesis
    proof (cases "fc_args fc")
      case None
      then show ?thesis
        using True False s2
        by (simp add: handleToolCall_begin_def s2_def [symmetric] guarded_finish_call)
    next
      case (Some a)
      then show ?thesis
        using True False s2
        by (simp add: handleToolCall_begin_def s2_def [symmetric] guarded_def guard_timers_def)
    qed
  next
    case other: False
    obtain s3 c where tool: "sync_tool cap fc s2 = (s3, c)"
      by (cases "sync_tool cap fc s2")
    from dispatch_view_sync_tool [of cap fc s2] tool s2
    have "isProcessingRef s3" "pendingSearch s3 = []" "guard_timers s3 = 0"
      by (simp_all add: dispatch_view_def)
    then show ?thesis
      using other False tool
      by (simp add: handleToolCall_begin_def s2_def [symmetric] guarded_finish_call)
  qed
qed

lemma guarded_start_calls: "guarded s \<Longrightarrow> guarded (start_calls cap fcs s)"
  by (induction fcs arbitrary: s) (simp_all add: guarded_begin)

lemma dispatch_view_before_calls:
  "dispatch_view (on_interrupted cap e s) = dispatch_view s"
  "dispatch_view (on_inputTranscription e text s) = dispatch_view s"
  "dispatch_view (on_outputTranscription text s) = dispatch_view s"
  "dispatch_view (on_turnComplete cap e s) = dispatch_view s"
  "dispatch_view (schedule_chunk d s) = dispatch_view s"
  by (simp_all add: dispatch_view_def guard_timers_def on_interrupted_def
      on_inputTranscription_def on_outputTranscription_def on_turnComplete_def
      schedule_chunk_def log_turn_def Let_def)

lemma guarded_onmessage_rest: "guarded s \<Longrightarrow> guarded (onmessage_rest cap e m s)"
  unfolding onmessage_rest_def Let_def
  by (intro guarded_start_calls)
    (simp add: guarded_view [OF dispatch_view_before_calls(1)]
      guarded_view [OF dispatch_view_before_calls(2)]
      guarded_view [OF dispatch_view_before_calls(3)]
      guarded_view [OF dispatch_view_before_calls(4)] split: option.splits)

lemma guarded_onmessage: "guarded s \<Longrightarrow> guarded (onmessage cap e (\<lambda>t. t) m s)"
proof -
  assume g: "guarded s"
  have cursor: "guarded (s\<lparr> nextStartTime := c \<rparr>)" for c
    using g by (simp add: guarded_def guard_timers_def)
  show ?thesis
    by (simp add: onmessage_def Let_def g cursor guarded_onmessage_rest
        guarded_view [OF dispatch_view_before_calls(5)] split: option.splits)
qed

lemma dispatch_view_search_property:
  "dispatch_view (fst (search_property cap outcome s)) = dispatch_view s"
  by (simp add: dispatch_view_def guard_timers_def search_property_def
      split: search_outcome.splits list.splits option.splits)

lemma guarded_resume:
  assumes g: "guarded s" and head: "pendingSearch s = fc # fcs"
  shows "guarded (handleToolCall_resume cap fc outcome s)"
proof -
  define s0 where "s0 = s\<lparr> pendingSearch := remove1 fc (pendingSearch s) \<rparr>"
  obtain s1 response where found: "search_property cap outcome s0 = (s1, response)"
    by (cases "search_property cap outcome s0")
  from g head have "isProcessingRef s" "fcs = []" "guard_timers s = 0"
    by (auto simp: guarded_def)
  then have "isProcessingRef s0" "pendingSearch s0 = []" "guard_timers s0 = 0"
    using head by (simp_all add: s0_def guard_timers_def)
  with dispatch_view_search_property [of cap outcome s0] found
  have "isProcessingRef s1" "pendingSearch s1 = []" "guard_timers s1 = 0"
    by (simp_all add: dispatch_view_def)
  then show ?thesis
    using found by (simp add: handleToolCall_resume_def s0_def [symmetric] guarded_finish_call)
qed

lemma guard_timers_remove:
  assumes i: "i < length (timers s)"
  shows "guard_timers (s\<lparr> timers := take i (timers s) @ drop (Suc i) (timers s) \<rparr>) =
           guard_timers s - (if timers s ! i = ReleaseGuard then 1 else 0)"
proof -
  from i have "timers s = take i (timers s) @ timers s ! i # drop (Suc i) (timers s)"
    by (simp add: id_take_nth_drop)
  then have "guard_timers s =
      length (filter (\<lambda>t. t = ReleaseGuard)
        (take i (timers s) @ timers s ! i # drop (Suc i) (timers s)))"
    unfolding guard_timers_def by simp
  then show ?thesis by (simp add: guard_timers_def)
qed

lemma guard_timers_positive:
  "i < length (timers s) \<Longrightarrow> timers s ! i = ReleaseGuard \<Longrightarrow> 0 < guard_timers s"
  by (auto simp: guard_timers_def filter_empty_conv in_set_conv_nth)

lemma guarded_fire: "guarded s \<Longrightarrow> guarded (fire cap e (undisturbed mic conn) i s)"
proof (cases "i < length (timers s)")
  case False
  assume "guarded s"
  with False show ?thesis by (simp add: fire_def)
next
  case True
  assume g: "guarded s"
  define s1 where "s1 = s\<lparr> timers := take i (timers s) @ drop (Suc i) (timers s) \<rparr>"
  have fields: "pendingSearch s1 = pendingSearch s" "isProcessingRef s1 = isProcessingRef s"
    by (simp_all add: s1_def)
  show ?thesis
  proof (cases "timers s ! i")
    case ReleaseGuard
    have "guard_timers s1 = guard_timers s - 1"
      unfolding s1_def using ReleaseGuard by (simp add: guard_timers_remove [OF True])
    moreover have "0 < guard_timers s"
      using True ReleaseGuard by (rule guard_timers_positive)
    moreover have "length (pendingSearch s) + guard_timers s \<le> 1"
      using g by (simp add: guarded_def)
    ultimately have "length (pendingSearch s1) + guard_timers s1 = 0"
      unfolding fields by arith
    then have "guarded (release_guard s1)"
      by (simp add: guarded_def release_guard_def guard_timers_def)
    then show ?thesis
      using True ReleaseGuard by (simp add: fire_def Let_def s1_def [symmetric])
  next
    case Reconnect
    have "guard_timers s1 = guard_timers s"
      unfolding s1_def using Reconnect by (simp add: guard_timers_remove [OF True])
    then have "guarded s1"
      using g fields by (simp add: guarded_def)
    then show ?thesis
      using True Reconnect
      by (simp add: fire_def Let_def s1_def [symmetric]
          guarded_view [OF dispatch_view_connectSession]
          guarded_view [OF dispatch_view_stopSession])
  qed
qed

lemma guarded_onerror: "guarded s \<Longrightarrow> guarded (onerror cap e s)"
proof -
  assume g: "guarded s"
  have "guarded (s\<lparr> statusMessage := m \<rparr>)" for m
    using g by (simp add: guarded_def guard_timers_def)
  moreover have "guarded (s\<lparr> reconnectAttemptsRef := n, statusMessage := m,
      timers := timers s @ [Reconnect] \<rparr>)" for n m
    using g by (simp add: guarded_def guard_timers_def)
  ultimately show ?thesis
    by (simp add: onerror_def guarded_view [OF dispatch_view_stopSession])
qed

lemma guarded_step: "guarded s \<Longrightarrow> guarded (step cap ev s)"
proof (cases ev)
  case (SearchSettles outcome)
  assume "guarded s"
  then show ?thesis
    using SearchSettles by (auto simp: step_def guarded_resume split: list.splits)
next
  case (SourceEnded i)
  assume "guarded s"
  then show ?thesis
    using SourceEnded by (simp add: step_def source_ended_def guarded_def guard_timers_def)
qed (simp_all add: step_def guarded_onmessage guarded_fire guarded_onerror onclose_def
      guarded_view [OF dispatch_view_stopSession] guarded_view [OF dispatch_view_connectSession])

lemma guarded_run: "guarded s \<Longrightarrow> guarded (run cap evs s)"
  by (induction evs arbitrary: s) (simp_all add: guarded_step)

lemma guarded_initial: "guarded initial"
  by (simp add: guarded_def guard_timers_def initial_def)

text \<open>
  Claim C6. A call that arrives while the guard flag is held is dropped: the dispatcher
  returns the state it was given, so nothing is appended to the history or to the tools used,
  no visibility flag changes and no response is sent, whatever the call is and however a
  search would have settled. In every state the component reaches from its initial state,
  through any sequence of messages, settled searches, fired timers, transport errors, closed
  connections, ended sources, stops and starts, at most one call is in progress, and the
  guard flag is held while it is.
\<close>

theorem dispatcher_serialises:
  "(isProcessingRef s \<longrightarrow>
      handleToolCall_begin cap fc s = (s, Dropped)
      \<and> handleToolCall cap between outcome fc s = s)
   \<and> length (pendingSearch (run cap evs initial)) \<le> 1
   \<and> (pendingSearch (run cap evs initial) \<noteq> [] \<longrightarrow> isProcessingRef (run cap evs initial))"
  using guarded_run [OF guarded_initial, of cap evs]
  by (auto simp: handleToolCall_begin_dropped handleToolCall_dropped guarded_def)

theorem dispatcher_serialises_witness:
  "isProcessingRef busy
   \<and> handleToolCall_begin first_render gallery_call busy = (busy, Dropped)
   \<and> handleToolCall first_render (\<lambda>t. t) SearchThrows gallery_call busy = busy
   \<and> pendingSearch (run first_render two_calls initial) = [villa_search]
   \<and> isProcessingRef (run first_render two_calls initial)"
proof -
  have held: "isProcessingRef busy"
    by (simp add: busy_def playing_def)
  have pending: "pendingSearch (run first_render two_calls initial) = [villa_search]"
    by (simp add: two_calls_def app_eval retry_eval granted_def opens_def quiet_def
        no_parts_def villa_search_def gallery_call_def)
  from dispatcher_serialises [of busy first_render gallery_call "\<lambda>t. t" SearchThrows two_calls]
    held pending
  show ?thesis by simp
qed


lemma zero_based_default: "zero_based None = 0" "zero_based (Some 0) = 0"
  by (simp_all add: zero_based_def)



lemma finish_call_fields:
  "activeProperty (finish_call fc c s) = activeProperty s"
  "showGallery (finish_call fc c s) = showGallery s"
  "showGalleryRef (finish_call fc c s) = showGalleryRef s"
  "isProcessingRef (finish_call fc c s) = isProcessingRef s"
  "timers (finish_call fc c s) = timers s @ [ReleaseGuard]"
  "toolResponses (finish_call fc (Throws err) s) = toolResponses s"
  "toolResponses (finish_call fc (Normal response) s) =
     (if sessionPromiseRef s = None then toolResponses s
      else toolResponses s @
        [\<lparr> resp_id = fc_id fc, resp_name = fc_name fc, resp_result = response \<rparr>])"
  by (simp_all add: finish_call_def Let_def split: completion.splits option.splits)

text \<open>An accepted call of a tool that runs without waiting.\<close>

lemma handleToolCall_begin_sync:
  assumes "\<not> isProcessingRef s" and "fc_name fc \<noteq> ''search_property''"
  shows "handleToolCall_begin cap fc s =
     (finish_call fc (snd (sync_tool cap fc (accept_call fc s)))
        (fst (sync_tool cap fc (accept_call fc s))), Finished)"
  using assms by (simp add: handleToolCall_begin_def split: prod.splits)








text \<open>
  Within the session that showed a property the dispatcher does not read the history as it
  stands: it is the dispatcher of the render that opened the session, whose history is
  empty. After the search has put the villa into the history, the call with the index \<open>1\<close> is
  answered that no property was shown.
\<close>

lemma previous_property_within_session:
  "propertyHistory (run first_render previous_in_session initial) = [villa]
   \<and> r_propertyHistory first_render = []
   \<and> resp_result (last (toolResponses (run first_render previous_in_session initial))) =
       resp_no_such_a @ ''0'' @ resp_no_such_b"
  by (simp add: previous_in_session_def first_render_def app_eval retry_eval granted_def
      opens_def villa_search_def previous_call_def no_parts_def quiet_def villa_def
      zero_based_def is_integer_def show_nat.simps digit_char_def)

lemma sync_tool_other_normal:
  "fc_name fc \<noteq> ''show_previous_property'' \<Longrightarrow> \<exists>text. snd (sync_tool cap fc t) = Normal text"
  by (simp add: sync_tool_def open_gallery_def split: option.splits)

lemma sync_tool_guard:
  "isProcessingRef (fst (sync_tool cap fc t)) = isProcessingRef t"
  "timers (fst (sync_tool cap fc t)) = timers t"
  "toolResponses (fst (sync_tool cap fc t)) = toolResponses t"
  "sessionPromiseRef (fst (sync_tool cap fc t)) = sessionPromiseRef t"
  by (simp_all add: sync_tool_def show_previous_property_def open_gallery_def
      handleCloseGallery_def Let_def split: option.splits)

lemma search_property_guard:
  "isProcessingRef (fst (search_property cap outcome t)) = isProcessingRef t"
  "timers (fst (search_property cap outcome t)) = timers t"
  "toolResponses (fst (search_property cap outcome t)) = toolResponses t"
  "sessionPromiseRef (fst (search_property cap outcome t)) = sessionPromiseRef t"
  by (simp_all add: search_property_def
      split: search_outcome.splits list.splits option.splits)

lemma handleToolCall_resume_unfold:
  "handleToolCall_resume cap fc outcome t =
     finish_call fc
       (Normal (snd (search_property cap outcome (t\<lparr> pendingSearch := remove1 fc (pendingSearch t) \<rparr>))))
       (fst (search_property cap outcome (t\<lparr> pendingSearch := remove1 fc (pendingSearch t) \<rparr>)))"
  by (simp add: handleToolCall_resume_def split: prod.splits)

text \<open>
  Claim C8, amended. Every call that passes the guard ends with the guard held and the
  release timer set: a tool that runs without waiting and a search without arguments at
  once, a search when it settles, in whatever state the other handlers have left by then.
  When the body of the call does not throw it produces a result text (a tool other than
  \<open>show_previous_property\<close> never throws, and a search that fails is answered by the apology),
  and that text is sent to the backend with the id and the name of the call if a session
  promise is attached at that moment; with no session promise nothing is sent. The
  dispatcher itself returns in every case, and the timer, when it fires, releases the guard.
\<close>

theorem accepted_call_answered:
  assumes free: "\<not> isProcessingRef s"
  shows "(fc_name fc \<noteq> ''search_property'' \<longrightarrow>
            snd (handleToolCall_begin cap fc s) = Finished
          \<and> isProcessingRef (fst (handleToolCall_begin cap fc s))
          \<and> timers (fst (handleToolCall_begin cap fc s)) = timers s @ [ReleaseGuard]
          \<and> (\<forall>text. snd (sync_tool cap fc (accept_call fc s)) = Normal text \<longrightarrow>
                toolResponses (fst (handleToolCall_begin cap fc s)) =
                  (if sessionPromiseRef s = None then toolResponses s
                   else toolResponses s @
                     [\<lparr> resp_id = fc_id fc, resp_name = fc_name fc, resp_result = text \<rparr>])))
       \<and> (fc_name fc \<noteq> ''search_property'' \<and> fc_name fc \<noteq> ''show_previous_property'' \<longrightarrow>
            (\<exists>text. snd (sync_tool cap fc (accept_call fc s)) = Normal text))
       \<and> (fc_name fc = ''search_property'' \<and> fc_args fc = None \<longrightarrow>
            snd (handleToolCall_begin cap fc s) = Finished
          \<and> isProcessingRef (fst (handleToolCall_begin cap fc s))
          \<and> timers (fst (handleToolCall_begin cap fc s)) = timers s @ [ReleaseGuard]
          \<and> toolResponses (fst (handleToolCall_begin cap fc s)) =
              (if sessionPromiseRef s = None then toolResponses s
               else toolResponses s @
                 [\<lparr> resp_id = fc_id fc, resp_name = fc_name fc,
                    resp_result = resp_search_error \<rparr>]))
       \<and> (fc_name fc = ''search_property'' \<and> fc_args fc \<noteq> None \<longrightarrow>
            snd (handleToolCall_begin cap fc s) = Awaiting
          \<and> isProcessingRef (fst (handleToolCall_begin cap fc s))
          \<and> timers (fst (handleToolCall_begin cap fc s)) = timers s
          \<and> toolResponses (fst (handleToolCall_begin cap fc s)) = toolResponses s)
       \<and> timers (handleToolCall_resume cap fc outcome t) = timers t @ [ReleaseGuard]
       \<and> isProcessingRef (handleToolCall_resume cap fc outcome t) = isProcessingRef t
       \<and> toolResponses (handleToolCall_resume cap fc outcome t) =
           (if sessionPromiseRef t = None then toolResponses t
            else toolResponses t @
              [\<lparr> resp_id = fc_id fc, resp_name = fc_name fc,
                 resp_result = snd (search_property cap outcome
                   (t\<lparr> pendingSearch := remove1 fc (pendingSearch t) \<rparr>)) \<rparr>])
       \<and> (\<forall>u. snd (search_property cap SearchThrows u) = resp_search_error)
       \<and> \<not> isProcessingRef (release_guard t)
       \<and> (i < length (timers t) \<and> timers t ! i = ReleaseGuard \<longrightarrow>
            \<not> isProcessingRef (fire cap e env i t))"
proof -
  have sync: "fc_name fc \<noteq> ''search_property'' \<Longrightarrow>
      snd (handleToolCall_begin cap fc s) = Finished
    \<and> isProcessingRef (fst (handleToolCall_begin cap fc s))
    \<and> timers (fst (handleToolCall_begin cap fc s)) = timers s @ [ReleaseGuard]
    \<and> (\<forall>text. snd (sync_tool cap fc (accept_call fc s)) = Normal text \<longrightarrow>
          toolResponses (fst (handleToolCall_begin cap fc s)) =
            (if sessionPromiseRef s = None then toolResponses s
             else toolResponses s @
               [\<lparr> resp_id = fc_id fc, resp_name = fc_name fc, resp_result = text \<rparr>]))"
    by (auto simp: handleToolCall_begin_sync [OF free] finish_call_fields sync_tool_guard
        accept_call_fields)
  have bare: "fc_name fc = ''search_property'' \<and> fc_args fc = None \<Longrightarrow>
      snd (handleToolCall_begin cap fc s) = Finished
    \<and> isProcessingRef (fst (handleToolCall_begin cap fc s))
    \<and> timers (fst (handleToolCall_begin cap fc s)) = timers s @ [ReleaseGuard]
    \<and> toolResponses (fst (handleToolCall_begin cap fc s)) =
        (if sessionPromiseRef s = None then toolResponses s
         else toolResponses s @
           [\<lparr> resp_id = fc_id fc, resp_name = fc_name fc, resp_result = resp_search_error \<rparr>])"
    using free by (simp add: handleToolCall_begin_def finish_call_fields accept_call_fields)
  have waits: "fc_name fc = ''search_property'' \<and> fc_args fc \<noteq> None \<Longrightarrow>
      snd (handleToolCall_begin cap fc s) = Awaiting
    \<and> isProcessingRef (fst (handleToolCall_begin cap fc s))
    \<and> timers (fst (handleToolCall_begin cap fc s)) = timers s
    \<and> toolResponses (fst (handleToolCall_begin cap fc s)) = toolResponses s"
    using free by (auto simp: handleToolCall_begin_def accept_call_fields)
  have resume: "timers (handleToolCall_resume cap fc outcome t) = timers t @ [ReleaseGuard]"
    "isProcessingRef (handleToolCall_resume cap fc outcome t) = isProcessingRef t"
    "toolResponses (handleToolCall_resume cap fc outcome t) =
       (if sessionPromiseRef t = None then toolResponses t
        else toolResponses t @
          [\<lparr> resp_id = fc_id fc, resp_name = fc_name fc,
             resp_result = snd (search_property cap outcome
               (t\<lparr> pendingSearch := remove1 fc (pendingSearch t) \<rparr>)) \<rparr>])"
    by (simp_all add: handleToolCall_resume_unfold finish_call_fields search_property_guard)
  have release: "\<not> isProcessingRef (release_guard t)"
    "i < length (timers t) \<and> timers t ! i = ReleaseGuard \<Longrightarrow>
       \<not> isProcessingRef (fire cap e env i t)"
    by (simp_all add: release_guard_def fire_def Let_def)
  have apology: "\<forall>u. snd (search_property cap SearchThrows u) = resp_search_error"
    by (simp add: search_property_def)
  show ?thesis
    using sync bare waits resume release apology sync_tool_other_normal [of fc cap "accept_call fc s"]
    by blast
qed

theorem accepted_call_answered_witness:
  "\<not> isProcessingRef playing
   \<and> fc_name gallery_call \<noteq> ''search_property''
   \<and> snd (sync_tool one_shown gallery_call (accept_call gallery_call playing)) =
       Normal (resp_gallery_opened @ ''Villa in Hittin.'')
   \<and> sessionPromiseRef playing \<noteq> None
   \<and> toolResponses (fst (handleToolCall_begin one_shown gallery_call playing)) =
       [\<lparr> resp_id = ''call-2'', resp_name = ''open_gallery'',
          resp_result = resp_gallery_opened @ ''Villa in Hittin.'' \<rparr>]
   \<and> timers (fst (handleToolCall_begin one_shown gallery_call playing)) = [ReleaseGuard]
   \<and> isProcessingRef (fst (handleToolCall_begin one_shown gallery_call playing))
   \<and> \<not> isProcessingRef (fire one_shown quiet_clock (undisturbed granted opens) 0
          (fst (handleToolCall_begin one_shown gallery_call playing)))
   \<and> fc_name villa_search = ''search_property'' \<and> fc_args villa_search \<noteq> None
   \<and> snd (handleToolCall_begin one_shown villa_search playing) = Awaiting
   \<and> isProcessingRef (fst (handleToolCall_begin one_shown villa_search playing))
   \<and> toolResponses (handleToolCall_resume one_shown villa_search SearchThrows
         (fst (handleToolCall_begin one_shown villa_search playing))) =
       [\<lparr> resp_id = ''call-1'', resp_name = ''search_property'',
          resp_result = resp_search_error \<rparr>]
   \<and> toolResponses (fst (handleToolCall_begin one_shown (villa_search\<lparr> fc_args := None \<rparr>) playing)) =
       [\<lparr> resp_id = ''call-1'', resp_name = ''search_property'',
          resp_result = resp_search_error \<rparr>]"
proof -
  have free: "\<not> isProcessingRef playing"
    by (simp add: playing_def initial_def)
  have body: "snd (sync_tool one_shown gallery_call (accept_call gallery_call playing)) =
       Normal (resp_gallery_opened @ ''Villa in Hittin.'')"
    by (simp add: sync_tool_def open_gallery_def accept_call_def gallery_call_def one_shown_def
        villa_def playing_def initial_def)
  have session: "sessionPromiseRef playing = Some 7" "toolResponses playing = []"
    "timers playing = []"
    by (simp_all add: playing_def initial_def)
  have name: "fc_name gallery_call = ''open_gallery''" "fc_id gallery_call = ''call-2''"
    "fc_name villa_search = ''search_property''" "fc_id villa_search = ''call-1''"
    "fc_args villa_search \<noteq> None"
    by (simp_all add: gallery_call_def villa_search_def)
  define waiting where "waiting = fst (handleToolCall_begin one_shown villa_search playing)"
  from accepted_call_answered [OF free, where fc = villa_search and cap = one_shown
      and t = waiting and outcome = SearchThrows and i = 0 and e = quiet_clock
      and env = "undisturbed granted opens"] name session
  have search: "snd (handleToolCall_begin one_shown villa_search playing) = Awaiting"
    "isProcessingRef waiting" "toolResponses waiting = []"
    "toolResponses (handleToolCall_resume one_shown villa_search SearchThrows waiting) =
       (if sessionPromiseRef waiting = None then toolResponses waiting
        else toolResponses waiting @
          [\<lparr> resp_id = ''call-1'', resp_name = ''search_property'',
             resp_result = resp_search_error \<rparr>])"
    by (simp_all add: waiting_def)
  have attached: "sessionPromiseRef waiting = Some 7"
    using free name session
    by (auto simp: waiting_def handleToolCall_begin_def accept_call_fields)
  from accepted_call_answered [OF free, where fc = "villa_search\<lparr> fc_args := None \<rparr>"
      and cap = one_shown and t = playing and outcome = SearchThrows and i = 0
      and e = quiet_clock and env = "undisturbed granted opens"] name session
  have bare: "toolResponses (fst (handleToolCall_begin one_shown
      (villa_search\<lparr> fc_args := None \<rparr>) playing)) =
       [\<lparr> resp_id = ''call-1'', resp_name = ''search_property'',
          resp_result = resp_search_error \<rparr>]"
    by simp
  from accepted_call_answered [OF free, where fc = gallery_call and cap = one_shown
      and t = "fst (handleToolCall_begin one_shown gallery_call playing)" and i = 0
      and e = quiet_clock and env = "undisturbed granted opens"]
  show ?thesis
    using free body session name search attached bare by (simp add: waiting_def)
qed

text \<open>
  Claim C8 as stated fails: an accepted call is not always answered. A call for a previous
  property that carries no arguments passes the guard on a live session, throws inside the
  body, and the outer \<open>catch\<close> sends nothing; and a search that settles after the session was
  stopped finds no session promise and sends nothing either. In both runs the guard timer is
  set.
\<close>

theorem accepted_call_unanswered:
  "\<not> isProcessingRef playing \<and> sessionPromiseRef playing = Some 7
   \<and> snd (handleToolCall_begin one_shown bare_previous_call playing) = Finished
   \<and> toolResponses (fst (handleToolCall_begin one_shown bare_previous_call playing)) = []
   \<and> timers (fst (handleToolCall_begin one_shown bare_previous_call playing)) = [ReleaseGuard]
   \<and> snd (handleToolCall_begin first_render villa_search playing) = Awaiting
   \<and> toolResponses (handleToolCall first_render (stopSession first_render quiet_clock)
         (SearchReturns [villa] None) villa_search playing) = []
   \<and> timers (handleToolCall first_render (stopSession first_render quiet_clock)
         (SearchReturns [villa] None) villa_search playing) = [ReleaseGuard]"
  by (simp add: app_eval bare_previous_call_def villa_search_def one_shown_def first_render_def
      villa_def playing_def quiet_clock_def saveInquiry_def)

section \<open>Properties of the turn bookkeeping\<close>

lemma onmessage_fragment:
  assumes live: "sessionRef s \<noteq> None"
  shows "onmessage cap e (\<lambda>t. t) (fragment_message f) s =
     (case f of
        UserSaid text \<Rightarrow> on_inputTranscription (clock e) text s
      | ModelSaid text \<Rightarrow> on_outputTranscription text s)"
  using live
  by (cases f)
    (auto simp: onmessage_def awaits_decoder_def onmessage_rest_def fragment_message_def
      no_parts_def)

lemma feed_fragments:
  assumes "sessionRef s \<noteq> None"
  shows "currentInputTranscription (feed cap (map (\<lambda>(e, f). (e, fragment_message f)) frs) s) =
           currentInputTranscription s @ user_text (map snd frs)
       \<and> currentOutputTranscription (feed cap (map (\<lambda>(e, f). (e, fragment_message f)) frs) s) =
           currentOutputTranscription s @ model_text (map snd frs)
       \<and> sink (feed cap (map (\<lambda>(e, f). (e, fragment_message f)) frs) s) = sink s
       \<and> sessionRef (feed cap (map (\<lambda>(e, f). (e, fragment_message f)) frs) s) = sessionRef s
       \<and> toolsUsedRef (feed cap (map (\<lambda>(e, f). (e, fragment_message f)) frs) s) = toolsUsedRef s"
  using assms
proof (induction frs arbitrary: s)
  case Nil
  then show ?case by simp
next
  case (Cons ef frs)
  obtain e f where ef: "ef = (e, f)" by (cases ef)
  define s1 where "s1 = onmessage cap e (\<lambda>t. t) (fragment_message f) s"
  have step: "sessionRef s1 = sessionRef s" "sink s1 = sink s" "toolsUsedRef s1 = toolsUsedRef s"
    "currentInputTranscription s1 = currentInputTranscription s @ user_text [f]"
    "currentOutputTranscription s1 = currentOutputTranscription s @ model_text [f]"
    unfolding s1_def onmessage_fragment [OF Cons.prems]
    by (cases f; simp add: on_inputTranscription_def on_outputTranscription_def)+
  have unfolded: "feed cap (map (\<lambda>(e, f). (e, fragment_message f)) (ef # frs)) s =
      feed cap (map (\<lambda>(e, f). (e, fragment_message f)) frs) s1"
    by (simp add: ef s1_def)
  from step(1) Cons.prems have "sessionRef s1 \<noteq> None" by simp
  from Cons.IH [OF this] step show ?case
    unfolding unfolded by (cases f) (simp_all add: ef)
qed

lemma feed_append: "feed cap (ms @ ns) s = feed cap ns (feed cap ms s)"
  by (induction ms arbitrary: s) auto

lemma log_turn_sink:
  "stored_inquiries (sink (log_turn cap e u b st s)) =
     slice_last 200 (stored_inquiries (sink s) @
       [fst (saveInquiry e u b
         (Some \<lparr> opt_propertyId = map_option prop_id (r_activeProperty cap),
                 opt_toolsUsed = Some (toolsUsedRef s), opt_status = Some st,
                 opt_startTime = Some (turnStartTimeRef s) \<rparr>) (sink s))])"
  by (simp add: log_turn_def stored_saveInquiry)

lemma saveInquiry_status:
  "status (fst (saveInquiry e u b (Some opts) k)) =
     (case opt_status opts of None \<Rightarrow> Complete | Some st \<Rightarrow> st)"
  "toolsUsed (fst (saveInquiry e u b (Some opts) k)) =
     (case opt_toolsUsed opts of None \<Rightarrow> [] | Some ts \<Rightarrow> ts)"
  by (simp_all add: saveInquiry_def make_log_def getSessionId_def Let_def
      split: option.splits prod.splits)

lemma log_turn_record:
  "\<exists>log. stored_inquiries (sink (log_turn cap e u b st s)) =
           slice_last 200 (stored_inquiries (sink s) @ [log])
         \<and> userMessage log = u \<and> botResponse log = b \<and> status log = st
         \<and> toolsUsed log = toolsUsedRef s"
  by (rule exI [of _ "fst (saveInquiry e u b
         (Some \<lparr> opt_propertyId = map_option prop_id (r_activeProperty cap),
                 opt_toolsUsed = Some (toolsUsedRef s), opt_status = Some st,
                 opt_startTime = Some (turnStartTimeRef s) \<rparr>) (sink s))"])
    (simp add: log_turn_sink saveInquiry_texts saveInquiry_status)

lemma log_turn_fields:
  "currentInputTranscription (log_turn cap e u b st s) = currentInputTranscription s"
  "currentOutputTranscription (log_turn cap e u b st s) = currentOutputTranscription s"
  "toolsUsedRef (log_turn cap e u b st s) = toolsUsedRef s"
  "sessionRef (log_turn cap e u b st s) = sessionRef s"
  by (simp_all add: log_turn_def)

lemma on_turnComplete_flush:
  "(turn_open s \<longrightarrow>
      (\<exists>log. stored_inquiries (sink (on_turnComplete cap e s)) =
               slice_last 200 (stored_inquiries (sink s) @ [log])
             \<and> userMessage log = currentInputTranscription s
             \<and> botResponse log = currentOutputTranscription s
             \<and> status log = Complete \<and> toolsUsed log = toolsUsedRef s))
   \<and> (\<not> turn_open s \<longrightarrow> sink (on_turnComplete cap e s) = sink s)
   \<and> \<not> turn_open (on_turnComplete cap e s) \<and> toolsUsedRef (on_turnComplete cap e s) = []"
proof -
  define s1 where "s1 = s\<lparr> transcript := slice_last 5 (transcript s @
      [(currentInputTranscription s, currentOutputTranscription s)]) \<rparr>"
  have s1: "sink s1 = sink s" "toolsUsedRef s1 = toolsUsedRef s"
    by (simp_all add: s1_def)
  from log_turn_record [of cap e "currentInputTranscription s" "currentOutputTranscription s"
      Complete s1]
  show ?thesis
    by (auto simp: on_turnComplete_def Let_def turn_open_def s1_def [symmetric] s1
        log_turn_fields)
qed

lemma onmessage_turn_complete:
  "sessionRef s \<noteq> None \<Longrightarrow>
     onmessage cap e (\<lambda>t. t) turn_complete_message s = on_turnComplete cap (clock e) s"
  by (auto simp: onmessage_def awaits_decoder_def onmessage_rest_def turn_complete_message_def
      no_parts_def)

text \<open>
  Claim C5, amended. On a live session and from a state with no text pending, for every
  sequence of input and output transcript fragments followed by a turn-complete message:
  when the concatenation of the input fragments or that of the output fragments is not
  empty, the stored list afterwards is the stored list before with exactly one record
  appended (and cut to its last 200 entries), a record of status \<open>complete\<close> whose user text
  and assistant text are the concatenations of the respective fragments in their order of
  arrival; when both concatenations are empty no record is stored. In both cases no text is
  left pending.
\<close>

theorem turn_complete_flushes_concatenation:
  assumes live: "sessionRef s \<noteq> None" and fresh: "\<not> turn_open s"
  shows "(user_text (map snd frs) \<noteq> [] \<or> model_text (map snd frs) \<noteq> [] \<longrightarrow>
            (\<exists>log. stored_inquiries (sink (feed cap (turn_messages frs e) s)) =
                     slice_last 200 (stored_inquiries (sink s) @ [log])
                   \<and> userMessage log = user_text (map snd frs)
                   \<and> botResponse log = model_text (map snd frs)
                   \<and> status log = Complete))
       \<and> (user_text (map snd frs) = [] \<and> model_text (map snd frs) = [] \<longrightarrow>
            stored_inquiries (sink (feed cap (turn_messages frs e) s)) =
              stored_inquiries (sink s))
       \<and> \<not> turn_open (feed cap (turn_messages frs e) s)"
proof -
  define s1 where "s1 = feed cap (map (\<lambda>(e, f). (e, fragment_message f)) frs) s"
  from feed_fragments [OF live, of cap frs] fresh
  have s1: "currentInputTranscription s1 = user_text (map snd frs)"
    "currentOutputTranscription s1 = model_text (map snd frs)"
    "sink s1 = sink s" "sessionRef s1 = sessionRef s"
    by (simp_all add: s1_def turn_open_def)
  have "feed cap (turn_messages frs e) s = on_turnComplete cap (clock e) s1"
    using live s1(4)
    by (simp add: turn_messages_def feed_append s1_def [symmetric] onmessage_turn_complete)
  then show ?thesis
    using on_turnComplete_flush [of s1 cap "clock e"] s1
    by (auto simp: turn_open_def)
qed

theorem turn_complete_flushes_concatenation_witness:
  "sessionRef playing \<noteq> None \<and> \<not> turn_open playing
   \<and> user_text (map snd villa_turn) = ''I want a villa''
   \<and> model_text (map snd villa_turn) = ''Sure''
   \<and> (\<exists>log. stored_inquiries (sink (feed first_render (turn_messages villa_turn quiet) playing)) = [log]
          \<and> userMessage log = ''I want a villa'' \<and> botResponse log = ''Sure''
          \<and> status log = Complete)
   \<and> stored_inquiries (sink (feed first_render (turn_messages [] quiet) playing)) =
       stored_inquiries (sink playing)"
proof -
  have live: "sessionRef playing \<noteq> None" and fresh: "\<not> turn_open playing"
    and none: "stored_inquiries (sink playing) = []"
    by (simp_all add: playing_def initial_def turn_open_def stored_inquiries_def)
  have texts: "user_text (map snd villa_turn) = ''I want a villa''"
    "model_text (map snd villa_turn) = ''Sure''"
    by (simp_all add: villa_turn_def)
  from turn_complete_flushes_concatenation [OF live fresh, of villa_turn first_render quiet]
    turn_complete_flushes_concatenation [OF live fresh, of "[]" first_render quiet]
  show ?thesis
    using live fresh none texts by (simp add: slice_last_def)
qed

text \<open>
  Claim C5 as stated fails for a turn without text: a turn-complete message that follows no
  fragment, or only an empty fragment, stores no record.
\<close>

theorem turn_complete_without_text:
  "sessionRef playing \<noteq> None \<and> \<not> turn_open playing
   \<and> stored_inquiries (sink (feed first_render (turn_messages [] quiet) playing)) = []
   \<and> stored_inquiries (sink (feed first_render (turn_messages [(quiet, UserSaid [])] quiet) playing)) = []"
  by (simp add: turn_messages_def fragment_message_def turn_complete_message_def no_parts_def
      app_eval playing_def turn_open_def stored_inquiries_def)

lemma on_interrupted_flush:
  "(turn_open s \<longrightarrow>
      (\<exists>log. stored_inquiries (sink (on_interrupted cap e s)) =
               slice_last 200 (stored_inquiries (sink s) @ [log])
             \<and> userMessage log = or_else (currentInputTranscription s) ph_interrupted_user
             \<and> botResponse log = or_else (currentOutputTranscription s) ph_interrupted_bot
             \<and> status log = Interrupted \<and> toolsUsed log = toolsUsedRef s))
   \<and> (\<not> turn_open s \<longrightarrow> sink (on_interrupted cap e s) = sink s)
   \<and> \<not> turn_open (on_interrupted cap e s)"
  using log_turn_record [of cap e "or_else (currentInputTranscription s) ph_interrupted_user"
      "or_else (currentOutputTranscription s) ph_interrupted_bot" Interrupted s]
  by (auto simp: on_interrupted_def Let_def turn_open_def log_turn_fields)

lemma stopSession_flush:
  "(turn_open s \<longrightarrow>
      (\<exists>log. stored_inquiries (sink (stopSession cap e s)) =
               slice_last 200 (stored_inquiries (sink s) @ [log])
             \<and> userMessage log = or_else (currentInputTranscription s) ph_session_end_user
             \<and> botResponse log = or_else (currentOutputTranscription s) ph_session_end_bot
             \<and> status log = Session_end \<and> toolsUsed log = toolsUsedRef s))
   \<and> (\<not> turn_open s \<longrightarrow> stored_inquiries (sink (stopSession cap e s)) = stored_inquiries (sink s))
   \<and> \<not> turn_open (stopSession cap e s)"
proof -
  define s1 where "s1 = s\<lparr> abort := abort_current (abort s) \<rparr>"
  have s1: "sink s1 = sink s" "toolsUsedRef s1 = toolsUsedRef s"
    "currentInputTranscription s1 = currentInputTranscription s"
    "currentOutputTranscription s1 = currentOutputTranscription s"
    by (simp_all add: s1_def)
  from log_turn_record [of cap e "or_else (currentInputTranscription s) ph_session_end_user"
      "or_else (currentOutputTranscription s) ph_session_end_bot" Session_end s1]
  show ?thesis
    by (auto simp: stopSession_def Let_def turn_open_def s1_def [symmetric] s1 log_turn_fields
        resetSessionId_def stored_inquiries_def)
qed

lemma turn_text_finish_call:
  "sink (finish_call fc c s) = sink s"
  "turn_open (finish_call fc c s) = turn_open s"
  by (simp_all add: finish_call_def turn_open_def Let_def split: completion.splits option.splits)

lemma turn_text_sync_tool:
  "sink (fst (sync_tool cap fc s)) = sink s"
  "turn_open (fst (sync_tool cap fc s)) = turn_open s"
  by (simp_all add: sync_tool_def show_previous_property_def open_gallery_def
      handleCloseGallery_def turn_open_def Let_def split: option.splits)

lemma turn_text_search_property:
  "sink (fst (search_property cap outcome s)) = sink s"
  "turn_open (fst (search_property cap outcome s)) = turn_open s"
  by (simp_all add: search_property_def turn_open_def
      split: search_outcome.splits list.splits option.splits)

lemma turn_text_accept_call:
  "sink (accept_call fc s) = sink s"
  "turn_open (accept_call fc s) = turn_open s"
  by (simp_all add: accept_call_def turn_open_def Let_def)

lemma sink_dispatcher:
  "sink (fst (handleToolCall_begin cap fc s)) = sink s"
  "turn_open (fst (handleToolCall_begin cap fc s)) = turn_open s"
  "sink (handleToolCall_resume cap fc outcome s) = sink s"
  "turn_open (handleToolCall_resume cap fc outcome s) = turn_open s"
proof -
  have pending: "turn_open (t\<lparr> pendingSearch := ps \<rparr>) = turn_open t" for t ps
    by (simp add: turn_open_def)
  show "sink (fst (handleToolCall_begin cap fc s)) = sink s"
    "turn_open (fst (handleToolCall_begin cap fc s)) = turn_open s"
    by (simp_all add: handleToolCall_begin_def turn_text_finish_call turn_text_sync_tool
        turn_text_accept_call pending split: option.splits prod.splits)
      (metis fst_conv turn_text_sync_tool turn_text_accept_call)+
  show "sink (handleToolCall_resume cap fc outcome s) = sink s"
    "turn_open (handleToolCall_resume cap fc outcome s) = turn_open s"
    by (simp_all add: handleToolCall_resume_unfold turn_text_finish_call
        turn_text_search_property pending)
qed

text \<open>
  Claim C9, amended. A turn that has accumulated transcript text is flushed exactly once, by
  whichever of turn completion, interruption and session end comes first: that handler
  appends exactly one record to the stored list (cut to its last 200 entries), with the
  status \<open>complete\<close>, \<open>interrupted\<close> or \<open>session_end\<close> and the tools used so far, and leaves no
  text pending, so that a later closing handler finds nothing to flush. A turn without
  transcript text is never flushed: with no text pending none of the three handlers stores a
  record, whether or not tools were called. Transcript fragments and tool calls store
  nothing themselves; a fragment with text opens the turn, a tool call does not.
\<close>

theorem turn_flushed_once:
  "(turn_open s \<longrightarrow>
      (\<exists>log. stored_inquiries (sink (on_turnComplete cap e s)) =
               slice_last 200 (stored_inquiries (sink s) @ [log])
             \<and> status log = Complete \<and> toolsUsed log = toolsUsedRef s
             \<and> userMessage log = currentInputTranscription s
             \<and> botResponse log = currentOutputTranscription s)
    \<and> (\<exists>log. stored_inquiries (sink (on_interrupted cap e s)) =
               slice_last 200 (stored_inquiries (sink s) @ [log])
             \<and> status log = Interrupted \<and> toolsUsed log = toolsUsedRef s
             \<and> userMessage log = or_else (currentInputTranscription s) ph_interrupted_user
             \<and> botResponse log = or_else (currentOutputTranscription s) ph_interrupted_bot)
    \<and> (\<exists>log. stored_inquiries (sink (stopSession cap e s)) =
               slice_last 200 (stored_inquiries (sink s) @ [log])
             \<and> status log = Session_end \<and> toolsUsed log = toolsUsedRef s
             \<and> userMessage log = or_else (currentInputTranscription s) ph_session_end_user
             \<and> botResponse log = or_else (currentOutputTranscription s) ph_session_end_bot))
   \<and> (\<not> turn_open s \<longrightarrow>
        stored_inquiries (sink (on_turnComplete cap e s)) = stored_inquiries (sink s)
      \<and> stored_inquiries (sink (on_interrupted cap e s)) = stored_inquiries (sink s)
      \<and> stored_inquiries (sink (stopSession cap e s)) = stored_inquiries (sink s))
   \<and> \<not> turn_open (on_turnComplete cap e s)
   \<and> \<not> turn_open (on_interrupted cap e s)
   \<and> \<not> turn_open (stopSession cap e s)
   \<and> sink (on_inputTranscription e words s) = sink s
   \<and> sink (on_outputTranscription words s) = sink s
   \<and> (words \<noteq> [] \<longrightarrow> turn_open (on_inputTranscription e words s)
                      \<and> turn_open (on_outputTranscription words s))
   \<and> sink (fst (handleToolCall_begin cap fc s)) = sink s
   \<and> turn_open (fst (handleToolCall_begin cap fc s)) = turn_open s
   \<and> sink (handleToolCall_resume cap fc outcome s) = sink s
   \<and> turn_open (handleToolCall_resume cap fc outcome s) = turn_open s"
proof -
  have fragments: "sink (on_inputTranscription e words s) = sink s"
    "sink (on_outputTranscription words s) = sink s"
    "words \<noteq> [] \<longrightarrow> turn_open (on_inputTranscription e words s)
                      \<and> turn_open (on_outputTranscription words s)"
    by (simp_all add: on_inputTranscription_def on_outputTranscription_def turn_open_def)
  have completes: "\<not> turn_open s \<longrightarrow>
      stored_inquiries (sink (on_turnComplete cap e s)) = stored_inquiries (sink s)"
    "\<not> turn_open s \<longrightarrow>
      stored_inquiries (sink (on_interrupted cap e s)) = stored_inquiries (sink s)"
    using on_turnComplete_flush [of s cap e] on_interrupted_flush [of s cap e] by simp_all
  show ?thesis
    using on_turnComplete_flush [of s cap e] on_interrupted_flush [of s cap e]
      stopSession_flush [of s cap e] fragments completes
      sink_dispatcher
    by blast
qed

theorem turn_flushed_once_witness:
  "turn_open (on_inputTranscription quiet_clock ''hello'' playing)
   \<and> (\<exists>log. stored_inquiries (sink (on_interrupted first_render quiet_clock
               (on_inputTranscription quiet_clock ''hello'' playing))) = [log]
          \<and> status log = Interrupted \<and> userMessage log = ''hello''
          \<and> botResponse log = ph_interrupted_bot)
   \<and> \<not> turn_open (on_interrupted first_render quiet_clock
          (on_inputTranscription quiet_clock ''hello'' playing))
   \<and> stored_inquiries (sink (stopSession first_render quiet_clock
        (on_interrupted first_render quiet_clock
          (on_inputTranscription quiet_clock ''hello'' playing)))) =
       stored_inquiries (sink (on_interrupted first_render quiet_clock
          (on_inputTranscription quiet_clock ''hello'' playing)))"
proof -
  define s1 where "s1 = on_inputTranscription quiet_clock ''hello'' playing"
  define s2 where "s2 = on_interrupted first_render quiet_clock s1"
  have s1: "turn_open s1" "stored_inquiries (sink s1) = []"
    "currentInputTranscription s1 = ''hello''" "currentOutputTranscription s1 = []"
    by (simp_all add: s1_def on_inputTranscription_def turn_open_def playing_def initial_def
        stored_inquiries_def)
  from turn_flushed_once [where s = s1 and cap = first_render and e = quiet_clock
      and words = "[]" and fc = gallery_call and outcome = SearchThrows] s1
  have flushed: "\<exists>log. stored_inquiries (sink s2) = [log]
          \<and> status log = Interrupted \<and> userMessage log = ''hello''
          \<and> botResponse log = ph_interrupted_bot"
    and closed: "\<not> turn_open s2"
    by (auto simp: s2_def slice_last_def or_else_def)
  from turn_flushed_once [where s = s2 and cap = first_render and e = quiet_clock
      and words = "[]" and fc = gallery_call and outcome = SearchThrows] closed
  have "stored_inquiries (sink (stopSession first_render quiet_clock s2)) =
      stored_inquiries (sink s2)"
    by blast
  with s1(1) flushed closed show ?thesis
    by (simp add: s1_def s2_def)
qed

text \<open>
  Claim C9 as stated fails for a turn opened by a tool call: with a tool recorded and no
  transcript text, the turn-complete message stores no record and clears the tools used, and
  the end of the session stores none either.
\<close>

theorem tool_call_turn_never_flushed:
  "toolsUsedRef (feed first_render [(quiet, no_parts\<lparr> toolCall := [gallery_call] \<rparr>)] playing) =
     [''open_gallery'']
   \<and> stored_inquiries (sink (feed first_render
        [(quiet, no_parts\<lparr> toolCall := [gallery_call] \<rparr>), (quiet, turn_complete_message)]
        playing)) = []
   \<and> toolsUsedRef (feed first_render
        [(quiet, no_parts\<lparr> toolCall := [gallery_call] \<rparr>), (quiet, turn_complete_message)]
        playing) = []
   \<and> stored_inquiries (sink (stopSession first_render quiet_clock (feed first_render
        [(quiet, no_parts\<lparr> toolCall := [gallery_call] \<rparr>), (quiet, turn_complete_message)]
        playing))) = []"
  by (simp add: turn_complete_message_def no_parts_def gallery_call_def first_render_def
      app_eval playing_def stored_inquiries_def resetSessionId_def)

section \<open>Cancellation and reconnection\<close>

lemma stopSession_abort: "abort (stopSession cap e s) = abort_current (abort s)"
  by (simp add: stopSession_def log_turn_def Let_def)

lemma stopSession_clears_reference: "\<not> signal_aborted (abort (stopSession cap e s))"
  by (simp add: stopSession_abort abort_current_def signal_aborted_def split: option.splits)

lemma stopSession_fires_listener:
  "abortControllerRef (abort s) = Some c \<Longrightarrow> c < length (signals (abort s))
     \<Longrightarrow> \<not> signals (abort s) ! c \<Longrightarrow> listener_fired (abort s) (abort (stopSession cap e s))"
  by (simp add: stopSession_abort abort_current_def listener_fired_def aborted_at_def)

lemma retry_loop_cancelled_at_start:
  "a \<le> m \<Longrightarrow> signal_aborted (ab s) \<Longrightarrow> retry_loop ab env m obs a le s = (Inl cancelled, s, [])"
  by (subst retry_loop.simps) simp

lemma retry_loop_cancelled_in_wait:
  assumes "a < m" "\<not> signal_aborted (ab s)" "settle env a = Rejects err" "\<not> non_retryable err"
    and "listener_fired (ab (observe obs a (while_pending env a s)))
           (ab (while_waiting env a (observe obs a (while_pending env a s))))"
  shows "fst (retry_loop ab env m obs a le s) = Inl cancelled"
  using assms by (subst retry_loop.simps) (simp add: Let_def)

text \<open>
  Claim C2 holds on the code for a stop during a wait and fails for a stop during an attempt.
  \<open>stopSession\<close> aborts the controller and clears the reference to it in one step, so the
  check at the start of an attempt never finds an aborted signal afterwards. With the session
  stopped while the first of two attempts is pending and the operation failing with a
  network error both times: the signal of the controller is set, the executor still waits
  500 ms, invokes the operation again and raises the network error of the operation, not the
  cancelled error. The same stop during the first wait raises the cancelled error.
\<close>

theorem stop_during_attempt_not_cancelled:
  "\<not> signal_aborted (abort (stopSession cap e s))
   \<and> withRetry abort stopped_during_first_attempt \<lparr> maxAttempts = Some 2, onRetry = None \<rparr> connecting =
       (Inl (new_Error ''Network down''), stopSession first_render quiet_clock connecting,
        [Invoke 1, Wait 1 (Some 500), Invoke 2])
   \<and> signals (abort (stopSession first_render quiet_clock connecting)) = [True]
   \<and> new_Error ''Network down'' \<noteq> cancelled
   \<and> fst (withRetry abort stopped_during_first_wait \<lparr> maxAttempts = Some 2, onRetry = None \<rparr> connecting) =
       Inl cancelled"
proof -
  have stopped: "abort (stopSession first_render quiet_clock connecting) =
      \<lparr> signals = [True], abortControllerRef = None \<rparr>"
    by (simp add: stopSession_abort abort_current_def connecting_def initial_def)
  have start: "abort connecting = \<lparr> signals = [False], abortControllerRef = Some 0 \<rparr>"
    by (simp add: connecting_def initial_def)
  have attempt: "withRetry abort stopped_during_first_attempt
      \<lparr> maxAttempts = Some 2, onRetry = None \<rparr> connecting =
       (Inl (new_Error ''Network down''), stopSession first_render quiet_clock connecting,
        [Invoke 1, Wait 1 (Some 500), Invoke 2])"
    by (simp add: retry_eval stopped_during_first_attempt_def stopped start)
  have wait: "fst (withRetry abort stopped_during_first_wait
      \<lparr> maxAttempts = Some 2, onRetry = None \<rparr> connecting) = Inl cancelled"
    by (simp add: retry_eval stopped_during_first_wait_def stopped start)
  show ?thesis
    using attempt wait stopped
    by (simp add: stopSession_clears_reference cancelled_def new_Error_def)
qed

theorem stop_during_attempt_not_cancelled_witness:
  "fst (withRetry abort stopped_during_first_attempt \<lparr> maxAttempts = Some 2, onRetry = None \<rparr>
          connecting) \<noteq> Inl cancelled
   \<and> invocations (snd (snd (withRetry abort stopped_during_first_attempt
          \<lparr> maxAttempts = Some 2, onRetry = None \<rparr> connecting))) = [1, 2]
   \<and> \<not> signal_aborted (abort (stopSession first_render quiet_clock connecting))"
  using stop_during_attempt_not_cancelled [of first_render quiet_clock connecting]
  by simp

lemma connectSession_resets_counter:
  "sessionRef s = None \<Longrightarrow> reconnectAttemptsRef (connectSession (undisturbed mic conn) s) = 0"
proof -
  assume idle: "sessionRef s = None"
  define P where "P = (\<lambda>t :: app. reconnectAttemptsRef t = 0)"
  define s1 where "s1 = s\<lparr> reconnectAttemptsRef := 0, abort := new_controller (abort s),
                     statusMessage := status_connecting \<rparr>"
  define mic_options :: "app retry_options" where
    "mic_options = \<lparr> maxAttempts = Some 2,
                   onRetry = Some (\<lambda>attempt t. t\<lparr> statusMessage := status_microphone \<rparr>) \<rparr>"
  define conn_options :: "app retry_options" where
    "conn_options = \<lparr> maxAttempts = Some 3,
                           onRetry = Some (\<lambda>attempt t. t\<lparr> statusMessage :=
                             status_retry_prefix @ show_nat attempt @ ''/3)...'' \<rparr>) \<rparr>"
  have P1: "P s1"
    by (simp add: P_def s1_def)
  obtain r2 s2 tr2 where mic:
    "withRetry abort (microphone (undisturbed mic conn)) mic_options s1 = (r2, s2, tr2)"
    by (metis prod_cases3)
  have P2: "P s2"
    by (rule withRetry_preserves [where P = P, OF _ _ _ mic P1])
      (simp_all add: undisturbed_def P_def observe_def mic_options_def)
  show ?thesis
  proof (cases r2)
    case (Inl err)
    then show ?thesis
      using idle mic P2
      by (simp add: connectSession_def s1_def [symmetric] mic_options_def [symmetric] Let_def
          connect_failed_def P_def)
  next
    case (Inr stream)
    define s3 where "s3 = s2\<lparr> streamRef := True, audioContext := Some Running,
                              outputAudioContext := Some Running \<rparr>"
    have P3: "P s3"
      using P2 by (simp add: P_def s3_def)
    obtain r4 s4 tr4 where conn:
      "withRetry abort (connection (undisturbed mic conn)) conn_options s3 = (r4, s4, tr4)"
      by (metis prod_cases3)
    have P4: "P s4"
      by (rule withRetry_preserves [where P = P, OF _ _ _ conn P3])
        (auto simp: undisturbed_def P_def observe_def conn_options_def onopen_def
          split: outcome.splits)
    show ?thesis
      using idle mic Inr conn P4
      by (cases r4)
        (simp_all add: connectSession_def s1_def [symmetric] mic_options_def [symmetric]
          conn_options_def [symmetric] s3_def [symmetric] Let_def connect_failed_def P_def)
  qed
qed

lemma onerror_at_limit_status:
  "maxReconnectAttempts \<le> reconnectAttemptsRef s \<Longrightarrow>
     statusMessage (onerror cap e s) = status_idle"
  by (simp add: onerror_def stopSession_def log_turn_def Let_def)

lemma status_idle_not_failed: "status_idle \<noteq> status_failed"
  by (simp add: status_idle_def status_failed_def)

text \<open>
  Claim C4 fails on the code. Every connection attempt resets the reconnection counter, so
  transport errors that each arrive after the previous reconnection never reach the limit:
  after four of them the component has reconnected four times (five controllers were created,
  one per connection attempt), the counter is back at zero and the session is live. The
  limit is only reached by errors that arrive within the second before the first pending
  reconnection: then the failure status is overwritten at once by the idle prompt of
  \<open>stopSession\<close>, and the three reconnection timers stay pending, so that the first of them
  reconnects after all. What does end with the failure shown and nothing pending is a
  reconnection whose connection attempts all fail: the last conjuncts.
\<close>

theorem reconnection_not_capped:
  "(sessionRef s = None \<longrightarrow> reconnectAttemptsRef (connectSession (undisturbed mic conn) s) = 0)
   \<and> (maxReconnectAttempts \<le> reconnectAttemptsRef s \<longrightarrow>
        statusMessage (onerror cap e s) = status_idle)
   \<and> status_idle \<noteq> status_failed
   \<and> length (signals (abort (run first_render four_reconnections initial))) = 5
   \<and> reconnectAttemptsRef (run first_render four_reconnections initial) = 0
   \<and> sessionRef (run first_render four_reconnections initial) = Some 7
   \<and> reconnectAttemptsRef (run first_render four_errors initial) = 3
   \<and> statusMessage (run first_render four_errors initial) = status_idle
   \<and> sessionRef (run first_render four_errors initial) = None
   \<and> timers (run first_render four_errors initial) = [Reconnect, Reconnect, Reconnect]
   \<and> sessionRef (run first_render
        (four_errors @ [TimerFires 0 quiet_clock granted opens]) initial) = Some 7
   \<and> statusMessage (run first_render failed_reconnection initial) = status_network
   \<and> sessionRef (run first_render failed_reconnection initial) = None
   \<and> timers (run first_render failed_reconnection initial) = []"
proof -
  have again: "length (signals (abort (run first_render four_reconnections initial))) = 5
      \<and> reconnectAttemptsRef (run first_render four_reconnections initial) = 0
      \<and> sessionRef (run first_render four_reconnections initial) = Some 7"
    by (simp add: four_reconnections_def app_eval retry_eval granted_def opens_def)
  have limit: "reconnectAttemptsRef (run first_render four_errors initial) = 3
      \<and> statusMessage (run first_render four_errors initial) = status_idle
      \<and> sessionRef (run first_render four_errors initial) = None
      \<and> timers (run first_render four_errors initial) = [Reconnect, Reconnect, Reconnect]"
    by (simp add: four_errors_def app_eval retry_eval granted_def opens_def)
  have after: "sessionRef (run first_render
        (four_errors @ [TimerFires 0 quiet_clock granted opens]) initial) = Some 7"
    by (simp add: four_errors_def app_eval retry_eval granted_def opens_def)
  have refused: "statusMessage (run first_render failed_reconnection initial) = status_network
      \<and> sessionRef (run first_render failed_reconnection initial) = None
      \<and> timers (run first_render failed_reconnection initial) = []"
    by (simp add: failed_reconnection_def app_eval retry_eval granted_def opens_def refuses_def
        getErrorMessage_def)
  show ?thesis
    using again limit after refused
    by (simp add: connectSession_resets_counter onerror_at_limit_status status_idle_not_failed)
qed

theorem reconnection_not_capped_witness:
  "maxReconnectAttempts \<le> reconnectAttemptsRef (run first_render four_errors initial)
   \<and> statusMessage (onerror first_render quiet_clock (run first_render four_errors initial)) =
       status_idle
   \<and> statusMessage (onerror first_render quiet_clock (run first_render four_errors initial)) \<noteq>
       status_failed
   \<and> sessionRef (run first_render four_errors initial) = None
   \<and> reconnectAttemptsRef (connectSession (undisturbed granted opens)
         (run first_render four_errors initial)) = 0"
  using reconnection_not_capped [of "run first_render four_errors initial" granted opens
      first_render quiet_clock]
  by (simp add: maxReconnectAttempts_def)

end
